theory Spec2Isabelle
  imports Complex_Main
begin

section \<open>Data of the recommendation response\<close>

text \<open>
  A JavaScript \<open>number\<close> is an IEEE 754 binary64 value. Every finite binary64 value is a
  rational number, so the finite values are carried as \<open>rat\<close>; the two zeros are
  identified (none of the functions below tells \<open>-0\<close> from \<open>0\<close>: \<open>-0 <= 1\<close>,
  \<open>!(-0)\<close>, \<open>(-0).toFixed(1) = "0.0"\<close> and \<open>String(-0) = "0"\<close>).
\<close>

datatype number = NaN | PosInfinity | NegInfinity | Fin rat

text \<open>
  A value read from decoded JSON or passed to a formatter: \<open>null\<close>, \<open>undefined\<close>
  (an absent field), or a proper value.
\<close>

datatype 'a nullable = Null | Undefined | Val 'a

text \<open>
  \<open>RecommendedItem\<close> of \<open>types/deadlock.ts\<close>. The declared types are not enforced on the
  decoded response, and the page tests the fields against \<open>null\<close> before use, so every
  field may be \<open>null\<close> or absent.
\<close>

record RecommendedItem =
  item_id :: "number nullable"
  name :: "string nullable"
  tier :: "number nullable"
  cost :: "number nullable"
  score :: "number nullable"
  shop_image :: "string nullable"
  shop_image_webp :: "string nullable"
  item_slot_type :: "string nullable"
  phase_rank :: "number nullable"
  phase_percentile :: "number nullable"
  hero_item_wr :: "number nullable"
  item_global_wr :: "number nullable"
  synergy_delta_wr :: "number nullable"
  transition_prob_from_prev :: "number nullable"
  order_in_phase :: "number nullable"
  order_global :: "number nullable"
  total_score :: "number nullable"

datatype PhaseKey = Early | Mid | Late | VeryLate

text \<open>\<open>RecommendResponse\<close>: a phase key may be absent from \<open>recommendations\<close>.\<close>

record RecommendResponse =
  model_version :: string
  recommendations :: "PhaseKey \<Rightarrow> RecommendedItem list option"

section \<open>JavaScript numbers\<close>

text \<open>
  The comparisons \<open><\<close> and \<open><=\<close> of JavaScript; a comparison with \<open>NaN\<close> is false.
  \<open>x > y\<close> is \<open>num_lt y x\<close> and \<open>x >= y\<close> is \<open>num_le y x\<close>.
\<close>

fun num_lt :: "number \<Rightarrow> number \<Rightarrow> bool" where
  "num_lt (Fin a) (Fin b) = (a < b)"
| "num_lt (Fin a) PosInfinity = True"
| "num_lt NegInfinity (Fin b) = True"
| "num_lt NegInfinity PosInfinity = True"
| "num_lt x y = False"

fun num_le :: "number \<Rightarrow> number \<Rightarrow> bool" where
  "num_le (Fin a) (Fin b) = (a \<le> b)"
| "num_le NaN y = False"
| "num_le x NaN = False"
| "num_le NegInfinity y = True"
| "num_le x PosInfinity = True"
| "num_le x y = False"

fun Math_abs :: "number \<Rightarrow> number" where
  "Math_abs (Fin a) = Fin \<bar>a\<bar>"
| "Math_abs NegInfinity = PosInfinity"
| "Math_abs x = x"

text \<open>
  Rounding of a rational to binary64, to nearest with ties to even: the value is scaled
  so that its significand has 53 bits (or to the fixed exponent \<open>-1074\<close> in the subnormal
  range), rounded to an integer \<open>m\<close> and scaled back. The result \<open>m * 2^e\<close> has magnitude
  \<open>2^1024\<close> or more, and overflows to an infinity, exactly when the number of bits of
  \<open>m\<close> plus \<open>e\<close> exceeds 1024. A numeric literal of the source and the result of an
  arithmetic operation are rounded this way.
\<close>

function bit_length :: "int \<Rightarrow> int" where
  "bit_length n = (if n \<le> 0 then 0 else 1 + bit_length (n div 2))"
  by pat_completeness auto
termination
  by (relation "measure nat") auto

definition pow2 :: "int \<Rightarrow> rat" where
  "pow2 e = (if e \<ge> 0 then 2 ^ nat e else 1 / 2 ^ nat (- e))"

text \<open>For \<open>x > 0\<close>, the exponent \<open>e\<close> with \<open>2^e \<le> x < 2^(e+1)\<close>.\<close>

definition floor_log2 :: "rat \<Rightarrow> int" where
  "floor_log2 x =
     (if x \<ge> 1 then bit_length \<lfloor>x\<rfloor> - 1
      else - bit_length (\<lceil>1 / x\<rceil> - 1))"

definition round_half_even :: "rat \<Rightarrow> int" where
  "round_half_even q =
     (let f = \<lfloor>q\<rfloor>; d = q - of_int f
      in if d < 1 / 2 then f else if d > 1 / 2 then f + 1 else if even f then f else f + 1)"

definition binary64 :: "rat \<Rightarrow> number" where
  "binary64 x =
     (if x = 0 then Fin 0
      else
        let e = max (floor_log2 \<bar>x\<bar> - 52) (- 1074);
            m = round_half_even (x / pow2 e)
        in if bit_length \<bar>m\<bar> + e > 1024
           then (if x > 0 then PosInfinity else NegInfinity)
           else Fin (of_int m * pow2 e))"

text \<open>The product \<open>x * y\<close>.\<close>

fun num_mul :: "number \<Rightarrow> number \<Rightarrow> number" where
  "num_mul (Fin a) (Fin b) = binary64 (a * b)"
| "num_mul NaN y = NaN"
| "num_mul x NaN = NaN"
| "num_mul x y =
     (if x = Fin 0 \<or> y = Fin 0 then NaN
      else if num_lt (Fin 0) x = num_lt (Fin 0) y then PosInfinity else NegInfinity)"

text \<open>\<open>Math.round\<close>: to the nearest integer, a tie towards \<open>+\<infinity>\<close>.\<close>

fun Math_round :: "number \<Rightarrow> number" where
  "Math_round (Fin a) = Fin (of_int \<lfloor>a + 1 / 2\<rfloor>)"
| "Math_round x = x"

text \<open>Decimal digits of a natural number.\<close>

definition digit_char :: "nat \<Rightarrow> char" where
  "digit_char d = ''0123456789'' ! d"

fun show_nat :: "nat \<Rightarrow> string" where
  "show_nat n = (if n < 10 then [digit_char n] else show_nat (n div 10) @ [digit_char (n mod 10)])"

text \<open>
  \<open>Number::toString\<close>, as \<open>String(x)\<close> and a template literal apply it. The language
  prescribes the shortest decimal or exponent notation that reads back as the value.
  For an integer of magnitude at most \<open>2^53\<close> these are its decimal digits, since every
  such integer is a value of its own. For a value with a fraction or of greater
  magnitude (where the shortest digits are padded with zeros, as in
  \<open>"1152921504606847000"\<close> for \<open>2^60\<close>) the page never inspects the string, and its
  rendering is the parameter \<open>other\<close> of the model.
\<close>

definition Number_toString :: "(rat \<Rightarrow> string) \<Rightarrow> number \<Rightarrow> string" where
  "Number_toString other x =
     (case x of
        NaN \<Rightarrow> ''NaN''
      | PosInfinity \<Rightarrow> ''Infinity''
      | NegInfinity \<Rightarrow> ''-Infinity''
      | Fin a \<Rightarrow>
          if of_int \<lfloor>a\<rfloor> = a \<and> \<bar>a\<bar> \<le> 2 ^ 53
          then (if a < 0 then ''-'' else []) @ show_nat (nat \<bar>\<lfloor>a\<rfloor>\<bar>)
          else other a)"

text \<open>
  \<open>Number.prototype.toFixed\<close>: a \<open>RangeError\<close> for more than 100 fraction digits;
  \<open>Number::toString\<close> for a value that is not finite or has magnitude \<open>10^21\<close> or more;
  otherwise the sign, and the digits of the integer \<open>n\<close> nearest to the magnitude times
  \<open>10^fractionDigits\<close> (the larger \<open>n\<close> on a tie), padded with zeros to at least
  \<open>fractionDigits + 1\<close> digits, with the point before the last \<open>fractionDigits\<close> digits.
\<close>

datatype js_error = RangeError

definition toFixed :: "(rat \<Rightarrow> string) \<Rightarrow> number \<Rightarrow> nat \<Rightarrow> js_error + string" where
  "toFixed other x fractionDigits =
     (if fractionDigits > 100 then Inl RangeError
      else case x of
        Fin a \<Rightarrow>
          (let s = (if a < 0 then ''-'' else []); a = \<bar>a\<bar>
           in if a \<ge> 10 ^ 21 then Inr (s @ Number_toString other (Fin a))
              else
                let n = nat \<lfloor>a * 10 ^ fractionDigits + 1 / 2\<rfloor>;
                    m = show_nat n;
                    m = replicate (fractionDigits + 1 - length m) (CHR ''0'') @ m;
                    k = length m
                in Inr (s @ (if fractionDigits = 0 then m
                             else take (k - fractionDigits) m @ ''.''
                                  @ drop (k - fractionDigits) m)))
      | _ \<Rightarrow> Inr (Number_toString other x))"

section \<open>The formatters of the build page\<close>

text \<open>
  The source file is UTF-8. The placeholder of the formatters is the em dash U+2014 and
  the glyph before a negative synergy is the minus sign U+2212; a string of the model is
  the byte sequence of the source text.
\<close>

definition em_dash :: string where
  "em_dash = [CHR 0xE2, CHR 0x80, CHR 0x94]"

definition minus_sign :: string where
  "minus_sign = [CHR 0xE2, CHR 0x88, CHR 0x92]"

text \<open>
  \<open>tierToRoman\<close>. \<open>!tier\<close> holds for \<open>null\<close>, \<open>undefined\<close>, \<open>NaN\<close> and zero. The table
  \<open>TIER_ROMAN\<close> has the keys 1 to 5, and \<open>TIER_ROMAN[tier]\<close> finds an entry only for these
  five numbers.
\<close>

definition TIER_ROMAN :: "(rat \<times> string) list" where
  "TIER_ROMAN = [(1, ''I''), (2, ''II''), (3, ''III''), (4, ''IV''), (5, ''V'')]"

definition tierToRoman :: "(rat \<Rightarrow> string) \<Rightarrow> number nullable \<Rightarrow> string" where
  "tierToRoman other t =
     (case t of
        Val x \<Rightarrow>
          if x = NaN \<or> x = Fin 0 \<or> num_le x (Fin 0) then []
          else (case (case x of Fin a \<Rightarrow> map_of TIER_ROMAN a | _ \<Rightarrow> None) of
                  Some roman \<Rightarrow> roman
                | None \<Rightarrow> Number_toString other x)
      | _ \<Rightarrow> [])"

text \<open>
  \<open>formatPercent\<close>. \<open>value == null\<close> holds for \<open>null\<close> and \<open>undefined\<close>. An exception of
  \<open>toFixed\<close> would leave the function; the result is \<open>Inl\<close> then.
\<close>

definition formatPercent :: "(rat \<Rightarrow> string) \<Rightarrow> number nullable \<Rightarrow> js_error + string" where
  "formatPercent other val =
     (case val of
        Val x \<Rightarrow>
          if x = NaN then Inr em_dash
          else
            let v = (if num_le x (Fin 1) then num_mul x (Fin 100) else x)
            in map_sum (\<lambda>e. e) (\<lambda>str. str @ ''%'') (toFixed other v 1)
      | _ \<Rightarrow> Inr em_dash)"

definition formatPercentile :: "(rat \<Rightarrow> string) \<Rightarrow> number nullable \<Rightarrow> string" where
  "formatPercentile other val =
     (case val of
        Val x \<Rightarrow>
          if x = NaN then em_dash
          else
            let v = (if num_le x (Fin 1) then num_mul x (Fin 100) else x)
            in Number_toString other (Math_round v) @ ''th''
      | _ \<Rightarrow> em_dash)"


text \<open>
  The numeral with one fractional digit nearest to a rational, the one of larger
  magnitude on a tie: what a rendering "with one decimal place" is.
\<close>

definition is_digit :: "char \<Rightarrow> bool" where
  "is_digit c = (c \<in> set ''0123456789'')"

definition one_decimal :: "rat \<Rightarrow> string" where
  "one_decimal v =
     (let n = nat \<lfloor>\<bar>v\<bar> * 10 + 1 / 2\<rfloor>
      in (if v < 0 then ''-'' else []) @ show_nat (n div 10) @ ''.'' @ [digit_char (n mod 10)])"

section \<open>The highlight block of the stats view\<close>

text \<open>
  The values that \<open>renderRecommendations\<close> computes for an item in the stats view.
  \<open>synergyDisplay\<close> and \<open>flowDisplay\<close> are a string or \<open>null\<close>.
\<close>

definition hasSynergy :: "RecommendedItem \<Rightarrow> bool" where
  "hasSynergy item =
     (case synergy_delta_wr item of
        Val x \<Rightarrow> num_lt (binary64 (5 / 10000)) (Math_abs x)
      | _ \<Rightarrow> False)"

definition synergyPositive :: "RecommendedItem \<Rightarrow> bool" where
  "synergyPositive item =
     num_le (Fin 0) (case synergy_delta_wr item of Val x \<Rightarrow> x | _ \<Rightarrow> Fin 0)"

text \<open>Where \<open>hasSynergy\<close> holds the field is a number, as the cast of the source says.\<close>

definition synergyDisplay :: "(rat \<Rightarrow> string) \<Rightarrow> RecommendedItem \<Rightarrow> js_error + string option" where
  "synergyDisplay other item =
     (if hasSynergy item then
        (case synergy_delta_wr item of
           Val x \<Rightarrow>
             map_sum (\<lambda>e. e)
               (\<lambda>p. Some ((if synergyPositive item then ''+'' else minus_sign) @ p))
               (formatPercent other (Val (Math_abs x)))
         | _ \<Rightarrow> Inr None)
      else Inr None)"

definition flowDisplay :: "(rat \<Rightarrow> string) \<Rightarrow> RecommendedItem \<Rightarrow> js_error + string option" where
  "flowDisplay other item =
     (case transition_prob_from_prev item of
        Val x \<Rightarrow> map_sum (\<lambda>e. e) Some (formatPercent other (Val x))
      | _ \<Rightarrow> Inr None)"

text \<open>A string or \<open>null\<close> as a condition: \<open>null\<close> and the empty string are false.\<close>

definition truthy :: "string option \<Rightarrow> bool" where
  "truthy s = (case s of None \<Rightarrow> False | Some str \<Rightarrow> str \<noteq> [])"

text \<open>
  Block 3 of the stats panel: the class of the block, its label, its main text, its
  sub text and the title of its tooltip; \<open>None\<close> when the block is not rendered.
\<close>

record stat_block =
  className :: string
  label :: string
  main_text :: "string option"
  sub_text :: string
  tooltip_title :: string

definition renderHighlight :: "(rat \<Rightarrow> string) \<Rightarrow> RecommendedItem \<Rightarrow> js_error + stat_block option" where
  "renderHighlight other item =
     (case synergyDisplay other item of
        Inl e \<Rightarrow> Inl e
      | Inr sd \<Rightarrow>
          (case flowDisplay other item of
             Inl e \<Rightarrow> Inl e
           | Inr fd \<Rightarrow>
               Inr (if hasSynergy item \<or> truthy fd then
                      Some \<lparr>className = ''item-stat-block item-stat-block--highlight ''
                               @ (if hasSynergy item
                                  then (if synergyPositive item then ''item-stat-block--positive''
                                        else ''item-stat-block--negative'')
                                  else []),
                             label = (if hasSynergy item then ''Synergy'' else ''Flow''),
                             main_text = (if hasSynergy item then sd else fd),
                             sub_text = (if hasSynergy item then ''vs global'' else ''after previous''),
                             tooltip_title = (if hasSynergy item then ''Synergy'' else ''Build Flow'')\<rparr>
                    else None)))"

text \<open>An item with every field absent, to build examples from.\<close>

definition blank_item :: RecommendedItem where
  "blank_item =
     \<lparr>item_id = Undefined, name = Undefined, tier = Undefined, cost = Undefined,
      score = Undefined, shop_image = Undefined, shop_image_webp = Undefined,
      item_slot_type = Undefined, phase_rank = Undefined, phase_percentile = Undefined,
      hero_item_wr = Undefined, item_global_wr = Undefined, synergy_delta_wr = Undefined,
      transition_prob_from_prev = Undefined, order_in_phase = Undefined,
      order_global = Undefined, total_score = Undefined\<rparr>"

section \<open>The build page of DataLock: selection state\<close>

text \<open>
  The page component \<open>BuildPage\<close> keeps its state in React hooks. Every event handler
  runs to completion against the state of the last render, so a handler is a function
  from the state to the next state. The functional updaters
  \<open>setTeamOtherIds((prev) => ...)\<close> receive the current value of the slot, which for
  a single event is the value the handler closed over.
\<close>

datatype SelectionStage = Hero | LaneAlly | TeamOthers | LaneEnemies | EnemyOthers

text \<open>The constants of the 6v6 line-up.\<close>

definition MAX_TEAM_OTHERS :: nat where
  "MAX_TEAM_OTHERS = 4"

definition MAX_LANE_ENEMIES :: nat where
  "MAX_LANE_ENEMIES = 2"

definition MAX_ENEMY_OTHERS :: nat where
  "MAX_ENEMY_OTHERS = 4"

text \<open>
  The hooks of the page that the selection and submission handlers read or write.
  Hero ids are the \<open>hero_id\<close> numbers of the catalogue; the handlers only compare them.
  The slot \<open>recommendation\<close> holds the decoded response of the last successful request.
\<close>

record page_state =
  stage :: SelectionStage
  heroId :: "int option"
  laneAllyId :: "int option"
  teamOtherIds :: "int list"
  laneEnemyIds :: "int list"
  enemyOtherIds :: "int list"
  isSubmitting :: bool
  recommendation :: "RecommendResponse option"
  submitError :: "string option"
  showBuildView :: bool

definition initial_state :: "page_state" where
  "initial_state =
     \<lparr>stage = Hero, heroId = None, laneAllyId = None, teamOtherIds = [],
      laneEnemyIds = [], enemyOtherIds = [], isSubmitting = False,
      recommendation = None, submitError = None, showBuildView = False\<rparr>"

text \<open>\<open>usedHeroIds\<close>: the set built from the five slots.\<close>

definition usedHeroIds :: "page_state \<Rightarrow> int set" where
  "usedHeroIds s =
     set_option (heroId s) \<union> set_option (laneAllyId s) \<union> set (teamOtherIds s)
       \<union> set (laneEnemyIds s) \<union> set (enemyOtherIds s)"

definition resetAll :: "page_state \<Rightarrow> page_state" where
  "resetAll s =
     s\<lparr>heroId := None, laneAllyId := None, teamOtherIds := [], laneEnemyIds := [],
       enemyOtherIds := [], stage := Hero, recommendation := None, submitError := None,
       showBuildView := False\<rparr>"

definition handleStageClick :: "page_state \<Rightarrow> SelectionStage \<Rightarrow> page_state" where
  "handleStageClick s next = s\<lparr>stage := next, showBuildView := False\<rparr>"

text \<open>
  \<open>handleHeroClick\<close>, branch by branch in the order of the source: the five toggle-off
  tests, the test against \<open>usedHeroIds\<close>, then assignment with auto-advance. The clicked
  id is \<open>hid\<close>. In the list stages the updater returns \<open>prev\<close> unchanged when the slot is
  full, and calls \<open>setStage\<close> when the appended id fills the slot.
\<close>

definition handleHeroClick :: "page_state \<Rightarrow> int \<Rightarrow> page_state" where
  "handleHeroClick s hid =
     (if stage s = Hero \<and> heroId s = Some hid then s\<lparr>heroId := None\<rparr>
      else if stage s = LaneAlly \<and> laneAllyId s = Some hid then s\<lparr>laneAllyId := None\<rparr>
      else if stage s = TeamOthers \<and> hid \<in> set (teamOtherIds s)
        then s\<lparr>teamOtherIds := filter (\<lambda>x. x \<noteq> hid) (teamOtherIds s)\<rparr>
      else if stage s = LaneEnemies \<and> hid \<in> set (laneEnemyIds s)
        then s\<lparr>laneEnemyIds := filter (\<lambda>x. x \<noteq> hid) (laneEnemyIds s)\<rparr>
      else if stage s = EnemyOthers \<and> hid \<in> set (enemyOtherIds s)
        then s\<lparr>enemyOtherIds := filter (\<lambda>x. x \<noteq> hid) (enemyOtherIds s)\<rparr>
      else if hid \<in> usedHeroIds s then s
      else if stage s = Hero then s\<lparr>heroId := Some hid, stage := LaneAlly\<rparr>
      else if stage s = LaneAlly then s\<lparr>laneAllyId := Some hid, stage := TeamOthers\<rparr>
      else if stage s = TeamOthers then
        (if length (teamOtherIds s) \<ge> MAX_TEAM_OTHERS then s
         else if length (teamOtherIds s @ [hid]) = MAX_TEAM_OTHERS
           then s\<lparr>teamOtherIds := teamOtherIds s @ [hid], stage := LaneEnemies\<rparr>
         else s\<lparr>teamOtherIds := teamOtherIds s @ [hid]\<rparr>)
      else if stage s = LaneEnemies then
        (if length (laneEnemyIds s) \<ge> MAX_LANE_ENEMIES then s
         else if length (laneEnemyIds s @ [hid]) = MAX_LANE_ENEMIES
           then s\<lparr>laneEnemyIds := laneEnemyIds s @ [hid], stage := EnemyOthers\<rparr>
         else s\<lparr>laneEnemyIds := laneEnemyIds s @ [hid]\<rparr>)
      else if stage s = EnemyOthers then
        (if length (enemyOtherIds s) \<ge> MAX_ENEMY_OTHERS then s
         else s\<lparr>enemyOtherIds := enemyOtherIds s @ [hid]\<rparr>)
      else s)"

text \<open>\<open>canSubmit\<close>: the gate on the submit button and on \<open>handleRecommendClick\<close>.\<close>

definition canSubmit :: "page_state \<Rightarrow> bool" where
  "canSubmit s \<longleftrightarrow>
     heroId s \<noteq> None \<and> laneAllyId s \<noteq> None
     \<and> length (teamOtherIds s) = MAX_TEAM_OTHERS
     \<and> length (laneEnemyIds s) = MAX_LANE_ENEMIES
     \<and> length (enemyOtherIds s) = MAX_ENEMY_OTHERS"

text \<open>
  \<open>isActiveRole\<close> (computed per hero card in \<open>renderHeroGrid\<close>): the hero sits in the
  slot that the current stage governs.
\<close>

definition isActiveRole :: "page_state \<Rightarrow> int \<Rightarrow> bool" where
  "isActiveRole s hid \<longleftrightarrow>
     (stage s = Hero \<and> heroId s = Some hid)
     \<or> (stage s = LaneAlly \<and> laneAllyId s = Some hid)
     \<or> (stage s = TeamOthers \<and> hid \<in> set (teamOtherIds s))
     \<or> (stage s = LaneEnemies \<and> hid \<in> set (laneEnemyIds s))
     \<or> (stage s = EnemyOthers \<and> hid \<in> set (enemyOtherIds s))"

subsection \<open>Observations on a selection state\<close>

text \<open>
  The ids held by the five role slots, in the order hero, lane ally, other allies, lane
  enemies, other enemies. An id that sat in two slots, or twice in one, would occur
  twice in this list.
\<close>

definition role_ids :: "page_state \<Rightarrow> int list" where
  "role_ids s =
     (case heroId s of None \<Rightarrow> [] | Some h \<Rightarrow> [h])
     @ (case laneAllyId s of None \<Rightarrow> [] | Some a \<Rightarrow> [a])
     @ teamOtherIds s @ laneEnemyIds s @ enemyOtherIds s"

text \<open>
  The content of the slot that a stage governs, a single-valued slot as a list of at
  most one id.
\<close>

definition slot_ids :: "SelectionStage \<Rightarrow> page_state \<Rightarrow> int list" where
  "slot_ids st s =
     (case st of
        Hero \<Rightarrow> (case heroId s of None \<Rightarrow> [] | Some h \<Rightarrow> [h])
      | LaneAlly \<Rightarrow> (case laneAllyId s of None \<Rightarrow> [] | Some a \<Rightarrow> [a])
      | TeamOthers \<Rightarrow> teamOtherIds s
      | LaneEnemies \<Rightarrow> laneEnemyIds s
      | EnemyOthers \<Rightarrow> enemyOtherIds s)"

text \<open>
  The slot of the current stage holds as many heroes as its role admits: one for the two
  single-valued roles, \<open>MAX_TEAM_OTHERS\<close>, \<open>MAX_LANE_ENEMIES\<close> and \<open>MAX_ENEMY_OTHERS\<close> for
  the lists (the test \<open>prev.length >= MAX\<close> of the updaters).
\<close>

definition slot_full :: "page_state \<Rightarrow> bool" where
  "slot_full s =
     (case stage s of
        Hero \<Rightarrow> heroId s \<noteq> None
      | LaneAlly \<Rightarrow> laneAllyId s \<noteq> None
      | TeamOthers \<Rightarrow> length (teamOtherIds s) \<ge> MAX_TEAM_OTHERS
      | LaneEnemies \<Rightarrow> length (laneEnemyIds s) \<ge> MAX_LANE_ENEMIES
      | EnemyOthers \<Rightarrow> length (enemyOtherIds s) \<ge> MAX_ENEMY_OTHERS)"

subsection \<open>Sequences of user events\<close>

text \<open>A run of hero clicks alone, from the empty selection.\<close>

definition selectHeroes :: "int list \<Rightarrow> page_state" where
  "selectHeroes ids = foldl handleHeroClick initial_state ids"

text \<open>
  The three selection controls of the page: a hero card, a stage tab, the reset button.
\<close>

datatype sel_event = HeroClick int | StageClick SelectionStage | ResetClick

fun apply_event :: "page_state \<Rightarrow> sel_event \<Rightarrow> page_state" where
  "apply_event s (HeroClick hid) = handleHeroClick s hid"
| "apply_event s (StageClick st) = handleStageClick s st"
| "apply_event s ResetClick = resetAll s"

definition run_events :: "sel_event list \<Rightarrow> page_state" where
  "run_events es = foldl apply_event initial_state es"

text \<open>
  Selecting an id and selecting it again in the same stage: the first click may advance
  the stage, so the stage tab of the original stage is clicked before the second click.
\<close>

definition select_twice :: "page_state \<Rightarrow> int \<Rightarrow> page_state" where
  "select_twice s hid =
     handleHeroClick (handleStageClick (handleHeroClick s hid) (stage s)) hid"

text \<open>
  An invariant of the runs of hero clicks alone: the list slots stay within their
  capacities, and the slot of the current stage and the slots of the later stages are
  not yet filled, since only an assignment moves the stage and no click moves it back.
\<close>

definition sel_inv :: "page_state \<Rightarrow> bool" where
  "sel_inv s \<longleftrightarrow>
     length (teamOtherIds s) \<le> 4 \<and> length (laneEnemyIds s) \<le> 2
     \<and> length (enemyOtherIds s) \<le> 4
     \<and> (stage s = Hero \<longrightarrow>
          heroId s = None \<and> laneAllyId s = None \<and> teamOtherIds s = [] \<and> laneEnemyIds s = [])
     \<and> (stage s = LaneAlly \<longrightarrow>
          laneAllyId s = None \<and> teamOtherIds s = [] \<and> laneEnemyIds s = [])
     \<and> (stage s = TeamOthers \<longrightarrow> length (teamOtherIds s) < 4 \<and> laneEnemyIds s = [])
     \<and> (stage s = LaneEnemies \<longrightarrow> length (laneEnemyIds s) < 2)"

text \<open>
  The list slots are within their capacities: an invariant of every run of hero clicks,
  stage clicks and resets.
\<close>

definition within_capacity :: "page_state \<Rightarrow> bool" where
  "within_capacity s \<longleftrightarrow>
     length (teamOtherIds s) \<le> MAX_TEAM_OTHERS
     \<and> length (laneEnemyIds s) \<le> MAX_LANE_ENEMIES
     \<and> length (enemyOtherIds s) \<le> MAX_ENEMY_OTHERS"

section \<open>Submitting the selection\<close>

text \<open>\<open>RecommendPayload\<close> of \<open>types/deadlock.ts\<close>; \<open>top_k_per_phase\<close> is optional.\<close>

record RecommendPayload =
  hero_id :: int
  lane_ally_id :: int
  team_other_ids :: "int list"
  lane_enemy_ids :: "int list"
  enemy_other_ids :: "int list"
  top_k_per_phase :: "int option"

text \<open>
  How the request of \<open>handleRecommendClick\<close> can end:
  \<^item> \<open>fetch\<close> rejects, or \<open>res.json()\<close> rejects on a response with \<open>res.ok\<close>: the thrown
    value is an \<open>Error\<close> with a message (\<open>Some\<close>) or something else (\<open>None\<close>);
  \<^item> a response with \<open>!res.ok\<close>: its status, and the field \<open>error\<close> of its body when the
    body parses to an object whose \<open>error\<close> is a string;
  \<^item> a response with \<open>res.ok\<close> whose body decodes.
\<close>

datatype fetch_result =
    Rejected "string option"
  | NotOk nat "string option"
  | Decoded RecommendResponse

text \<open>
  \<open>handleRecommendClick\<close> up to the call of \<open>fetch\<close>: \<open>None\<close> when it returns at the test
  of \<open>canSubmit\<close>, otherwise the state after the four setters and the payload that is
  sent. \<open>heroId!\<close> and \<open>laneAllyId!\<close> are the values of the slots, which \<open>canSubmit\<close> has
  found set.
\<close>

definition handleRecommendClick_start ::
    "page_state \<Rightarrow> (page_state \<times> RecommendPayload) option" where
  "handleRecommendClick_start s =
     (if \<not> canSubmit s then None
      else Some
        (s\<lparr>isSubmitting := True, submitError := None, recommendation := None,
            showBuildView := False\<rparr>,
         \<lparr>hero_id = the (heroId s), lane_ally_id = the (laneAllyId s),
          team_other_ids = teamOtherIds s, lane_enemy_ids = laneEnemyIds s,
          enemy_other_ids = enemyOtherIds s, top_k_per_phase = Some 8\<rparr>))"

text \<open>The message that the \<open>catch\<close> block stores for a failed request.\<close>

fun failure_message :: "fetch_result \<Rightarrow> string option" where
  "failure_message (Rejected (Some m)) = Some m"
| "failure_message (Rejected None) = Some ''Failed to get recommendation.''"
| "failure_message (NotOk status (Some e)) = Some e"
| "failure_message (NotOk status None) =
     Some (''Recommendation failed with status '' @ show_nat status)"
| "failure_message (Decoded d) = None"

text \<open>
  \<open>handleRecommendClick\<close> after the \<open>await\<close>: the two setters of the success path, or the
  setter of the \<open>catch\<close> block, then the \<open>finally\<close> block.
\<close>

definition handleRecommendClick_settle :: "page_state \<Rightarrow> fetch_result \<Rightarrow> page_state" where
  "handleRecommendClick_settle s r =
     (case r of
        Decoded d \<Rightarrow> s\<lparr>recommendation := Some d, showBuildView := True, isSubmitting := False\<rparr>
      | _ \<Rightarrow> s\<lparr>submitError := failure_message r, isSubmitting := False\<rparr>)"

definition handleBackFromBuild :: "page_state \<Rightarrow> page_state" where
  "handleBackFromBuild s = s\<lparr>showBuildView := False\<rparr>"

text \<open>
  What the page shows: the selection view, or, in the build view, the recommendation
  area with the progress text while submitting, else the stored error when it is a
  non-empty string, else what \<open>renderRecommendations\<close> returns, which is a notice when
  no result is stored and the phases of the stored result otherwise.
\<close>

datatype page_view =
    SelectionView
  | Calculating
  | ErrorText string
  | NoRecommendation
  | RecommendationView RecommendResponse

definition renderRecommendations :: "page_state \<Rightarrow> page_view" where
  "renderRecommendations s =
     (case recommendation s of None \<Rightarrow> NoRecommendation | Some r \<Rightarrow> RecommendationView r)"

definition render_page :: "page_state \<Rightarrow> page_view" where
  "render_page s =
     (if showBuildView s then
        (if isSubmitting s then Calculating
         else case submitError s of
                None \<Rightarrow> renderRecommendations s
              | Some m \<Rightarrow> if m = [] then renderRecommendations s else ErrorText m)
      else SelectionView)"

text \<open>
  The page as an event system. A state of the system is the state of the hooks and the
  number of requests that have been sent and have not settled. The build view renders
  only the back button; the selection view renders the hero cards, the stage tabs, the
  submit button (\<open>disabled={!canSubmit || isSubmitting}\<close>) and the reset button
  (\<open>disabled={isSubmitting}\<close>). A click on a control that is disabled or not rendered
  changes nothing, and a request settles only while one is pending.
\<close>

datatype ui_event =
    CardClick int
  | TabClick SelectionStage
  | ResetButton
  | RecommendButton
  | BackButton
  | Settled fetch_result

fun ui_step :: "page_state \<times> nat \<Rightarrow> ui_event \<Rightarrow> page_state \<times> nat" where
  "ui_step (s, n) (CardClick hid) =
     (if showBuildView s then (s, n) else (handleHeroClick s hid, n))"
| "ui_step (s, n) (TabClick st) =
     (if showBuildView s then (s, n) else (handleStageClick s st, n))"
| "ui_step (s, n) ResetButton =
     (if showBuildView s \<or> isSubmitting s then (s, n) else (resetAll s, n))"
| "ui_step (s, n) RecommendButton =
     (if showBuildView s \<or> \<not> canSubmit s \<or> isSubmitting s then (s, n)
      else case handleRecommendClick_start s of
             None \<Rightarrow> (s, n)
           | Some (s', payload) \<Rightarrow> (s', Suc n))"
| "ui_step (s, n) BackButton =
     (if showBuildView s then (handleBackFromBuild s, n) else (s, n))"
| "ui_step (s, n) (Settled r) =
     (case n of 0 \<Rightarrow> (s, n) | Suc m \<Rightarrow> (handleRecommendClick_settle s r, m))"

definition ui_run :: "ui_event list \<Rightarrow> page_state \<times> nat" where
  "ui_run es = foldl ui_step (initial_state, 0) es"

text \<open>
  An invariant of the event system: one request is pending exactly while \<open>isSubmitting\<close>
  is set; while it is set there is neither a stored result nor a stored error; and a
  stored error excludes a stored result.
\<close>

definition ui_inv :: "page_state \<times> nat \<Rightarrow> bool" where
  "ui_inv c \<longleftrightarrow>
     snd c = (if isSubmitting (fst c) then 1 else 0)
     \<and> (isSubmitting (fst c) \<longrightarrow> recommendation (fst c) = None \<and> submitError (fst c) = None)
     \<and> (submitError (fst c) \<noteq> None \<longrightarrow> recommendation (fst c) = None)"

text \<open>A decoded response with no phase, to build examples from.\<close>

definition empty_response :: RecommendResponse where
  "empty_response = \<lparr>model_version = ''v1'', recommendations = (\<lambda>k. None)\<rparr>"

section \<open>Properties of the formatters\<close>

declare show_nat.simps [simp del]

declare bit_length.simps [simp del]

subsection \<open>The rounding to binary64\<close>

text \<open>
  The model of the rounding is checked against its description: \<open>floor_log2\<close> is the
  binary exponent of its argument, and a finite result of \<open>binary64\<close> is an integer of at
  most 53 bits times a power of two, within half a unit of that power of the argument.
  A value between -1 and 1 times 100 does not overflow, and the product is within
  \<open>2^-47\<close> of the exact one.
\<close>

lemma bit_length_nonneg: "0 \<le> bit_length n"
proof (induction n rule: bit_length.induct)
  case (1 n)
  then show ?case by (cases "n \<le> 0") (simp_all add: bit_length.simps[of n])
qed

lemma bit_length_pos: "0 < n \<Longrightarrow> 0 < bit_length n"
  using bit_length_nonneg[of "n div 2"] by (simp add: bit_length.simps[of n])

lemma bit_length_bounds:
  "0 < n \<Longrightarrow> 2 ^ nat (bit_length n - 1) \<le> n \<and> n < 2 ^ nat (bit_length n)"
proof (induction n rule: bit_length.induct)
  case (1 n)
  show ?case
  proof (cases "n div 2 = 0")
    case True
    with \<open>0 < n\<close> have "n = 1" by presburger
    then show ?thesis by (simp add: bit_length.simps[of 1] bit_length.simps[of 0])
  next
    case False
    with \<open>0 < n\<close> have pos: "0 < n div 2" by presburger
    define b where "b = bit_length (n div 2)"
    have bpos: "0 < b" using pos by (simp add: b_def bit_length_pos)
    from 1 pos have ih: "2 ^ nat (b - 1) \<le> n div 2" "n div 2 < 2 ^ nat b"
      by (simp_all add: b_def)
    have bn: "bit_length n = b + 1" using \<open>0 < n\<close> by (simp add: bit_length.simps[of n] b_def)
    have p: "(2::int) ^ nat b = 2 * 2 ^ nat (b - 1)"
    proof -
      from bpos have "nat b = Suc (nat (b - 1))" by simp
      then show ?thesis by simp
    qed
    have "2 ^ nat b \<le> n" using ih(1) p by presburger
    moreover have "n < 2 ^ nat (b + 1)"
    proof -
      have "(2::int) ^ nat (b + 1) = 2 * 2 ^ nat b"
        using bpos by (simp add: nat_add_distrib)
      with ih(2) show ?thesis by presburger
    qed
    ultimately show ?thesis by (simp add: bn)
  qed
qed

lemma round_half_even_near: "\<bar>of_int (round_half_even q) - q\<bar> \<le> 1 / 2"
proof -
  have "of_int \<lfloor>q\<rfloor> \<le> q" "q < of_int \<lfloor>q\<rfloor> + 1" by linarith+
  then show ?thesis by (auto simp: round_half_even_def Let_def)
qed

lemma pow2_pos: "0 < pow2 e"
  by (simp add: pow2_def)

lemma pow2_nat: "0 \<le> e \<Longrightarrow> pow2 e = of_int (2 ^ nat e)"
  by (simp add: pow2_def)

lemma pow2_neg: "0 \<le> k \<Longrightarrow> pow2 (- k) = 1 / of_int (2 ^ nat k)"
  by (cases "k = 0") (simp_all add: pow2_def)

lemma pow2_powi: "pow2 e = 2 powi e"
  unfolding pow2_def power_int_def by (simp add: inverse_eq_divide power_one_over)

lemma pow2_add: "pow2 (a + b) = pow2 a * pow2 b"
  by (simp add: pow2_powi power_int_add)

lemma floor_log2_bounds:
  assumes "0 < x"
  shows "pow2 (floor_log2 x) \<le> x \<and> x < pow2 (floor_log2 x + 1)"
proof (cases "1 \<le> x")
  case True
  define n where "n = \<lfloor>x\<rfloor>"
  have npos: "0 < n" using True by (simp add: n_def)
  have nx: "of_int n \<le> x" "x < of_int n + 1" by (simp_all add: n_def) linarith
  from bit_length_bounds[OF npos]
  have b: "2 ^ nat (bit_length n - 1) \<le> n" "n + 1 \<le> 2 ^ nat (bit_length n)" by simp_all
  have bl: "0 < bit_length n" using npos by (rule bit_length_pos)
  have fl: "floor_log2 x = bit_length n - 1" using True by (simp add: floor_log2_def n_def)
  have "pow2 (bit_length n - 1) = of_int (2 ^ nat (bit_length n - 1))"
    using bl by (intro pow2_nat) simp
  also have "\<dots> \<le> of_int n" using b(1) by (simp only: of_int_le_iff)
  finally have lo: "pow2 (bit_length n - 1) \<le> x" using nx(1) by simp
  have "x < of_int (n + 1)" using nx(2) by simp
  also have "\<dots> \<le> of_int (2 ^ nat (bit_length n))" using b(2) by (simp only: of_int_le_iff)
  also have "\<dots> = pow2 (bit_length n)" using bl by (simp add: pow2_nat)
  finally have hi: "x < pow2 (bit_length n)" .
  from lo hi show ?thesis by (simp add: fl)
next
  case False
  define c where "c = \<lceil>1 / x\<rceil>"
  have y1: "1 < 1 / x" using assms False by simp
  have cy: "1 / x \<le> of_int c" "of_int c < 1 / x + 1" by (simp_all add: c_def) linarith
  have c2: "0 < c - 1" using y1 cy(1) by linarith
  define k where "k = bit_length (c - 1)"
  have kpos: "0 < k" using c2 by (simp add: k_def bit_length_pos)
  from bit_length_bounds[OF c2]
  have b: "2 ^ nat (k - 1) \<le> c - 1" "c \<le> 2 ^ nat k" by (simp_all add: k_def)
  have fl: "floor_log2 x = - k" using False by (simp add: floor_log2_def c_def k_def)
  have "1 / x \<le> of_int (2 ^ nat k)"
    using cy(1) b(2) by (meson of_int_le_iff order_trans)
  then have "1 \<le> of_int (2 ^ nat k) * x" using assms by (simp add: field_simps)
  then have lo: "pow2 (- k) \<le> x" using kpos by (simp add: pow2_neg field_simps)
  have "of_int (2 ^ nat (k - 1)) \<le> (of_int (c - 1) :: rat)"
    using b(1) by (simp only: of_int_le_iff)
  also have "\<dots> < 1 / x" using cy(2) by simp
  finally have "of_int (2 ^ nat (k - 1)) * x < 1" using assms by (simp add: field_simps)
  then have "x < 1 / of_int (2 ^ nat (k - 1))" by (simp add: field_simps)
  also have "\<dots> = pow2 (- (k - 1))" using kpos by (intro pow2_neg[symmetric]) simp
  finally have hi: "x < pow2 (- k + 1)" by simp
  from lo hi show ?thesis by (simp add: fl)
qed

lemma pow2_mono: "a \<le> b \<Longrightarrow> pow2 a \<le> pow2 b"
  by (simp add: pow2_powi power_int_increasing)

lemma significand_bound:
  assumes "x \<noteq> 0"
  shows "\<bar>round_half_even (x / pow2 (max (floor_log2 \<bar>x\<bar> - 52) (- 1074)))\<bar> \<le> 2 ^ 53"
proof -
  define e where "e = max (floor_log2 \<bar>x\<bar> - 52) (- 1074)"
  define q where "q = x / pow2 e"
  define m where "m = round_half_even q"
  have pe: "0 < pow2 e" by (rule pow2_pos)
  have near: "\<bar>of_int m - q\<bar> \<le> 1 / 2" unfolding m_def by (rule round_half_even_near)
  have "\<bar>x\<bar> < pow2 (floor_log2 \<bar>x\<bar> + 1)"
    using floor_log2_bounds[of "\<bar>x\<bar>"] assms by simp
  also have "\<dots> \<le> pow2 (e + 53)" by (intro pow2_mono) (simp add: e_def)
  also have "\<dots> = pow2 e * 2 ^ 53"
  proof -
    have "pow2 53 = 2 ^ 53" by (simp add: pow2_def)
    with pow2_add[of e 53] show ?thesis by (simp only:)
  qed
  finally have "\<bar>q\<bar> < 2 ^ 53" using pe by (simp add: q_def field_simps)
  with near have "\<bar>(of_int m :: rat)\<bar> < 2 ^ 53 + 1" by linarith
  then have "\<bar>(of_int m :: rat)\<bar> < of_int (2 ^ 53 + 1)" by simp
  then have "\<bar>m\<bar> < 2 ^ 53 + 1" by (simp only: of_int_abs[symmetric] of_int_less_iff)
  then show ?thesis by (simp add: m_def q_def e_def)
qed

lemma binary64_nearest:
  assumes "x \<noteq> 0" and "binary64 x = Fin y"
  shows "let e = max (floor_log2 \<bar>x\<bar> - 52) (- 1074); m = round_half_even (x / pow2 e)
         in y = of_int m * pow2 e \<and> \<bar>m\<bar> \<le> 2 ^ 53 \<and> \<bar>y - x\<bar> \<le> pow2 e / 2"
proof -
  define e where "e = max (floor_log2 \<bar>x\<bar> - 52) (- 1074)"
  define q where "q = x / pow2 e"
  define m where "m = round_half_even q"
  have pe: "0 < pow2 e" by (rule pow2_pos)
  from assms have y: "y = of_int m * pow2 e"
    by (simp add: binary64_def Let_def e_def q_def m_def split: if_splits)
  have near: "\<bar>of_int m - q\<bar> \<le> 1 / 2" unfolding m_def by (rule round_half_even_near)
  have "y - x = (of_int m - q) * pow2 e" using pe by (simp add: y q_def field_simps)
  then have "\<bar>y - x\<bar> = \<bar>of_int m - q\<bar> * pow2 e" using pe by (simp add: abs_mult)
  also have "\<dots> \<le> 1 / 2 * pow2 e" using near pe by (intro mult_right_mono) simp_all
  finally have err: "\<bar>y - x\<bar> \<le> pow2 e / 2" by simp
  have msz: "\<bar>m\<bar> \<le> 2 ^ 53"
    unfolding m_def q_def e_def by (rule significand_bound[OF assms(1)])
  from y msz err show ?thesis by (simp add: Let_def e_def q_def m_def)
qed

lemma bit_length_le:
  assumes "\<bar>m\<bar> \<le> 2 ^ 53"
  shows "bit_length \<bar>m\<bar> \<le> 54"
proof (cases "m = 0")
  case True
  then show ?thesis by (simp add: bit_length.simps[of 0])
next
  case False
  then have pos: "0 < \<bar>m\<bar>" by simp
  from bit_length_bounds[OF pos] assms
  have le: "(2::int) ^ nat (bit_length \<bar>m\<bar> - 1) \<le> 2 ^ 53" by linarith
  have "(1::int) < 2" by simp
  from power_le_imp_le_exp[OF this le] have "nat (bit_length \<bar>m\<bar> - 1) \<le> 53" .
  then show ?thesis by linarith
qed

lemma floor_log2_le:
  assumes "0 < x" and "x < pow2 k"
  shows "floor_log2 x < k"
proof (rule ccontr)
  assume "\<not> floor_log2 x < k"
  then have "pow2 k \<le> pow2 (floor_log2 x)" by (intro pow2_mono) simp
  with floor_log2_bounds[OF assms(1)] assms(2) show False by linarith
qed

lemma binary64_times_100:
  assumes "\<bar>a\<bar> \<le> 1"
  shows "\<exists>v. binary64 (a * 100) = Fin v \<and> \<bar>v - a * 100\<bar> \<le> 1 / 2 ^ 47 \<and> \<bar>v\<bar> < 10 ^ 21"
proof (cases "a = 0")
  case True
  then show ?thesis by (simp add: binary64_def)
next
  case False
  define x where "x = a * 100"
  have x0: "x \<noteq> 0" using False by (simp add: x_def)
  have xb: "\<bar>x\<bar> \<le> 100" using assms by (simp add: x_def abs_mult)
  define e where "e = max (floor_log2 \<bar>x\<bar> - 52) (- 1074)"
  define m where "m = round_half_even (x / pow2 e)"
  have "\<bar>x\<bar> < pow2 7" using xb by (simp add: pow2_def)
  then have "floor_log2 \<bar>x\<bar> < 7" using x0 by (intro floor_log2_le) simp_all
  then have e46: "e \<le> - 46" by (simp add: e_def)
  have msz: "\<bar>m\<bar> \<le> 2 ^ 53" unfolding m_def e_def by (rule significand_bound[OF x0])
  then have "bit_length \<bar>m\<bar> \<le> 54" by (rule bit_length_le)
  with e46 have noov: "\<not> bit_length \<bar>m\<bar> + e > 1024" by linarith
  have val: "binary64 x = Fin (of_int m * pow2 e)"
    using x0 noov by (simp add: binary64_def Let_def e_def m_def)
  from binary64_nearest[OF x0 val]
  have "\<bar>of_int m * pow2 e - x\<bar> \<le> pow2 e / 2" by (simp add: Let_def e_def m_def)
  also have "pow2 e / 2 \<le> pow2 (- 46) / 2" using pow2_mono[OF e46] by simp
  also have "\<dots> = 1 / 2 ^ 47" by (simp add: pow2_def)
  finally have err: "\<bar>of_int m * pow2 e - x\<bar> \<le> 1 / 2 ^ 47" .
  then have "\<bar>of_int m * pow2 e\<bar> \<le> \<bar>x\<bar> + 1 / 2 ^ 47" by linarith
  with xb have "\<bar>of_int m * pow2 e\<bar> < 10 ^ 21" by simp
  with val err show ?thesis by (auto simp: x_def)
qed

subsection \<open>Digits\<close>

lemma digit_char_is_digit: "d < 10 \<Longrightarrow> is_digit (digit_char d)"
proof -
  assume "d < 10"
  then have "d \<in> {0, 1, 2, 3, 4, 5, 6, 7, 8, 9}" by auto
  then show ?thesis
    by (auto simp: is_digit_def digit_char_def)
qed

lemma show_nat_small: "n < 10 \<Longrightarrow> show_nat n = [digit_char n]"
  by (simp add: show_nat.simps[of n])

lemma show_nat_large: "\<not> n < 10 \<Longrightarrow> show_nat n = show_nat (n div 10) @ [digit_char (n mod 10)]"
  by (simp add: show_nat.simps[of n])

lemma show_nat_digits: "list_all is_digit (show_nat n)"
proof (induction n rule: show_nat.induct)
  case (1 n)
  show ?case
  proof (cases "n < 10")
    case True
    then show ?thesis by (simp add: show_nat_small digit_char_is_digit)
  next
    case False
    with 1 show ?thesis by (simp add: show_nat_large digit_char_is_digit)
  qed
qed

lemma show_nat_nonempty: "show_nat n \<noteq> []"
  by (cases "n < 10") (simp_all add: show_nat_small show_nat_large)

lemma digit_char_0: "digit_char 0 = CHR ''0''"
  by (simp add: digit_char_def)

subsection \<open>\<open>toFixed\<close> with one fraction digit\<close>

lemma one_decimal_layout:
  "(let m = show_nat n; m = replicate (1 + 1 - length m) (CHR ''0'') @ m; k = length m
    in take (k - 1) m @ ''.'' @ drop (k - 1) m)
   = show_nat (n div 10) @ ''.'' @ [digit_char (n mod 10)]"
proof (cases "n < 10")
  case True
  then show ?thesis by (simp add: show_nat_small digit_char_0)
next
  case False
  have len: "length (show_nat (n div 10)) \<ge> 1"
    using show_nat_nonempty[of "n div 10"] by (cases "show_nat (n div 10)") auto
  with False show ?thesis by (simp add: show_nat_large Let_def)
qed

lemma toFixed_one_decimal:
  assumes "\<bar>b\<bar> < 10 ^ 21"
  shows "toFixed other (Fin b) 1 = Inr (one_decimal b)"
  using assms one_decimal_layout[of "nat \<lfloor>\<bar>b\<bar> * 10 + 1 / 2\<rfloor>"]
  by (simp add: toFixed_def one_decimal_def Let_def)

lemma toFixed_one_decimal_Suc:
  "\<bar>b\<bar> < 10 ^ 21 \<Longrightarrow> toFixed other (Fin b) (Suc 0) = Inr (one_decimal b)"
  using toFixed_one_decimal[of b other] by simp


lemma toFixed_total: "fractionDigits \<le> 100 \<Longrightarrow> \<exists>str. toFixed other x fractionDigits = Inr str"
  by (cases x) (simp_all add: toFixed_def Let_def)

subsection \<open>\<open>formatPercent\<close>\<close>

lemma formatPercent_total: "\<exists>p. formatPercent other v = Inr p \<and> p \<noteq> []"
proof (cases v)
  case (Val x)
  show ?thesis
  proof (cases "x = NaN")
    case True
    with Val show ?thesis by (simp add: formatPercent_def em_dash_def)
  next
    case False
    obtain str where
      "toFixed other (if num_le x (Fin 1) then num_mul x (Fin 100) else x) 1 = Inr str"
      using toFixed_total[of 1] by force
    with Val False show ?thesis by (simp add: formatPercent_def Let_def)
  qed
qed (simp_all add: formatPercent_def em_dash_def)

lemma formatPercent_fraction:
  "a \<le> 1 \<Longrightarrow> formatPercent other (Val (Fin a))
      = map_sum (\<lambda>e. e) (\<lambda>str. str @ ''%'') (toFixed other (binary64 (a * 100)) 1)"
  by (simp add: formatPercent_def)



lemma formatPercent_unit_range:
  assumes "\<bar>a\<bar> \<le> 1"
  shows "\<exists>w. binary64 (a * 100) = Fin w \<and> \<bar>w - a * 100\<bar> \<le> 1 / 2 ^ 47
           \<and> formatPercent other (Val (Fin a)) = Inr (one_decimal w @ ''%'')"
proof -
  from binary64_times_100[OF assms] obtain w where
    w: "binary64 (a * 100) = Fin w" "\<bar>w - a * 100\<bar> \<le> 1 / 2 ^ 47" "\<bar>w\<bar> < 10 ^ 21"
    by blast
  from assms have "a \<le> 1" by simp
  with w have "formatPercent other (Val (Fin a)) = Inr (one_decimal w @ ''%'')"
    by (simp add: formatPercent_fraction toFixed_one_decimal_Suc)
  with w show ?thesis by blast
qed









subsection \<open>Placeholders and totality\<close>

text \<open>
  C10 (totality of the formatters). On \<open>null\<close>, \<open>undefined\<close> and \<open>NaN\<close> both
  \<open>formatPercent\<close> and \<open>formatPercentile\<close> return the em dash, and \<open>tierToRoman\<close>
  returns the empty string on \<open>null\<close> and \<open>undefined\<close>. No call throws, on any value of
  the declared input type: \<open>formatPercent\<close> never takes the \<open>RangeError\<close> branch of
  \<open>toFixed\<close>, and \<open>formatPercentile\<close> and \<open>tierToRoman\<close> call nothing that can throw, so
  that their model has a plain string as its result.
\<close>

theorem formatters_total:
  "formatPercent other Null = Inr em_dash \<and> formatPercent other Undefined = Inr em_dash
   \<and> formatPercent other (Val NaN) = Inr em_dash
   \<and> formatPercentile other Null = em_dash \<and> formatPercentile other Undefined = em_dash
   \<and> formatPercentile other (Val NaN) = em_dash
   \<and> tierToRoman other Null = [] \<and> tierToRoman other Undefined = []
   \<and> (\<exists>str. formatPercent other v = Inr str)
   \<and> em_dash = [CHR 0xE2, CHR 0x80, CHR 0x94]"
  using formatPercent_total[of other v]
  by (auto simp: formatPercent_def formatPercentile_def tierToRoman_def em_dash_def)


section \<open>Properties of the highlight block\<close>

lemma hasSynergy_iff:
  "hasSynergy item \<longleftrightarrow>
     (\<exists>x. synergy_delta_wr item = Val x \<and> num_lt (binary64 (5 / 10000)) (Math_abs x))"
  by (cases "synergy_delta_wr item") (simp_all add: hasSynergy_def)

lemma flowDisplay_total: "\<exists>fd. flowDisplay other item = Inr fd"
proof (cases "transition_prob_from_prev item")
  case (Val y)
  obtain p where "formatPercent other (Val y) = Inr p" using formatPercent_total by blast
  with Val show ?thesis by (simp add: flowDisplay_def)
qed (simp_all add: flowDisplay_def)

lemma render_synergy:
  assumes "hasSynergy item" and "synergy_delta_wr item = Val x"
    and "formatPercent other (Val (Math_abs x)) = Inr p"
  shows "renderHighlight other item =
     Inr (Some \<lparr>className = ''item-stat-block item-stat-block--highlight ''
                    @ (if num_le (Fin 0) x then ''item-stat-block--positive''
                       else ''item-stat-block--negative''),
                 label = ''Synergy'',
                 main_text = Some ((if num_le (Fin 0) x then ''+'' else minus_sign) @ p),
                 sub_text = ''vs global'', tooltip_title = ''Synergy''\<rparr>)"
proof -
  obtain fd where "flowDisplay other item = Inr fd" using flowDisplay_total by blast
  with assms show ?thesis
    by (simp add: renderHighlight_def synergyDisplay_def synergyPositive_def)
qed

lemma render_flow:
  assumes "\<not> hasSynergy item" and "transition_prob_from_prev item = Val y"
    and "formatPercent other (Val y) = Inr p"
  shows "renderHighlight other item =
     Inr (Some \<lparr>className = ''item-stat-block item-stat-block--highlight '',
                 label = ''Flow'', main_text = Some p,
                 sub_text = ''after previous'', tooltip_title = ''Build Flow''\<rparr>)"
proof -
  from formatPercent_total[of other "Val y"] assms(3) have "p \<noteq> []" by auto
  with assms show ?thesis
    by (simp add: renderHighlight_def synergyDisplay_def flowDisplay_def truthy_def)
qed

lemma render_none:
  assumes "\<not> hasSynergy item"
    and "transition_prob_from_prev item = Null \<or> transition_prob_from_prev item = Undefined"
  shows "renderHighlight other item = Inr None"
  using assms
  by (auto simp: renderHighlight_def synergyDisplay_def flowDisplay_def truthy_def)

lemma lit_threshold: "binary64 (1 / 2000) = Fin (1152921504606847 / 2305843009213693952)"
  by code_simp

lemma lit_3e4: "binary64 (3 / 10000) = Fin (5534023222112865 / 18446744073709551616)"
  by code_simp

lemma lit_6e4: "binary64 (3 / 5000) = Fin (5534023222112865 / 9223372036854775808)"
  by code_simp

lemma lit_neg_6e4: "binary64 (- (3 / 5000)) = Fin (- (5534023222112865 / 9223372036854775808))"
  by code_simp

lemma formatPercent_6e4:
  "formatPercent other (Val (Fin (5534023222112865 / 9223372036854775808))) = Inr ''0.1%''"
  by code_simp

lemma formatPercent_quarter: "formatPercent other (Val (Fin (1 / 4))) = Inr ''25.0%''"
  by code_simp

subsection \<open>The magnitude behind the glyph\<close>

lemma round_half_even_nonneg: "0 \<le> q \<Longrightarrow> 0 \<le> round_half_even q"
proof -
  assume "0 \<le> q"
  then have "0 \<le> \<lfloor>q\<rfloor>" by simp
  then show ?thesis by (simp add: round_half_even_def Let_def)
qed

lemma binary64_nonneg:
  assumes "0 \<le> x" and "binary64 x = Fin y"
  shows "0 \<le> y"
proof (cases "x = 0")
  case True
  with assms show ?thesis by (simp add: binary64_def)
next
  case False
  define e where "e = max (floor_log2 \<bar>x\<bar> - 52) (- 1074)"
  have "0 \<le> x / pow2 e" using assms(1) pow2_pos[of e] by simp
  then have m: "0 \<le> round_half_even (x / pow2 e)" by (rule round_half_even_nonneg)
  from assms(2) False have "y = of_int (round_half_even (x / pow2 e)) * pow2 e"
    by (simp add: binary64_def Let_def e_def split: if_splits)
  with m pow2_pos[of e] show ?thesis by simp
qed

lemma digit_not_minus: "is_digit c \<Longrightarrow> c \<noteq> CHR ''-''"
  by (auto simp: is_digit_def)

lemma one_decimal_unsigned:
  assumes "0 \<le> v"
  shows "CHR ''-'' \<notin> set (one_decimal v)"
proof -
  define n where "n = nat \<lfloor>\<bar>v\<bar> * 10 + 1 / 2\<rfloor>"
  have "\<forall>c \<in> set (show_nat (n div 10)). is_digit c"
    using show_nat_digits[of "n div 10"] by (simp add: list_all_iff)
  then have "CHR ''-'' \<notin> set (show_nat (n div 10))"
    using digit_not_minus by blast
  moreover have "digit_char (n mod 10) \<noteq> CHR ''-''"
    by (rule digit_not_minus) (simp add: digit_char_is_digit)
  ultimately show ?thesis using assms by (simp add: one_decimal_def Let_def n_def)
qed

lemma Math_abs_not_negative: "\<not> num_lt (Math_abs x) (Fin 0)"
  by (cases x) simp_all

lemma formatPercent_magnitude:
  assumes "\<bar>a\<bar> \<le> 1"
  shows "\<exists>w. binary64 (\<bar>a\<bar> * 100) = Fin w
           \<and> formatPercent other (Val (Math_abs (Fin a))) = Inr (one_decimal w @ ''%'')
           \<and> CHR ''-'' \<notin> set (one_decimal w)"
proof -
  from assms have "\<bar>\<bar>a\<bar>\<bar> \<le> 1" by simp
  from formatPercent_unit_range[OF this, of other] obtain w where
    w: "binary64 (\<bar>a\<bar> * 100) = Fin w"
       "formatPercent other (Val (Fin \<bar>a\<bar>)) = Inr (one_decimal w @ ''%'')"
    by blast
  have "0 \<le> w" using binary64_nonneg[of "\<bar>a\<bar> * 100" w] w(1) by simp
  then have "CHR ''-'' \<notin> set (one_decimal w)" by (rule one_decimal_unsigned)
  with w show ?thesis by auto
qed

lemma scaled_6e4:
  "binary64 (138350580552821625 / 2305843009213693952)
     = Fin (1080863910568919 / 18014398509481984)
   \<and> one_decimal (1080863910568919 / 18014398509481984) = ''0.1''"
  by code_simp

text \<open>
  C7 (synergy or flow panel). For an item of the stats view, \<open>hasSynergy\<close> holds exactly
  when \<open>synergy_delta_wr\<close> is a number whose absolute value exceeds the literal
  \<open>0.0005\<close>; so \<open>0.0003\<close> is suppressed and \<open>0.0006\<close> qualifies. When it holds the block is
  the synergy panel, whatever the transition probability is: styled positive with the
  glyph \<open>+\<close> when the value is at least 0, negative with the minus sign otherwise, and
  showing the formatted absolute value behind the glyph; the absolute value is never
  negative, and for a value between -1 and 1 its rendering has no minus sign. When it does not hold and
  \<open>transition_prob_from_prev\<close> is a number the block is the flow panel with the formatted
  probability. When neither holds no block is rendered. The block is one element with
  one label, so the two panels are never shown together.
\<close>

theorem synergy_flow_panel:
  "(hasSynergy item \<longleftrightarrow>
      (\<exists>x. synergy_delta_wr item = Val x \<and> num_lt (binary64 (5 / 10000)) (Math_abs x)))
   \<and> (hasSynergy item \<and> synergy_delta_wr item = Val x
        \<and> formatPercent other (Val (Math_abs x)) = Inr p \<longrightarrow>
       renderHighlight other item =
         Inr (Some \<lparr>className = ''item-stat-block item-stat-block--highlight ''
                        @ (if num_le (Fin 0) x then ''item-stat-block--positive''
                           else ''item-stat-block--negative''),
                     label = ''Synergy'',
                     main_text = Some ((if num_le (Fin 0) x then ''+'' else minus_sign) @ p),
                     sub_text = ''vs global'', tooltip_title = ''Synergy''\<rparr>))
   \<and> (\<not> hasSynergy item \<and> transition_prob_from_prev item = Val y
        \<and> formatPercent other (Val y) = Inr q \<longrightarrow>
       renderHighlight other item =
         Inr (Some \<lparr>className = ''item-stat-block item-stat-block--highlight '',
                     label = ''Flow'', main_text = Some q,
                     sub_text = ''after previous'', tooltip_title = ''Build Flow''\<rparr>))
   \<and> (\<not> hasSynergy item
        \<and> (transition_prob_from_prev item = Null \<or> transition_prob_from_prev item = Undefined)
       \<longrightarrow> renderHighlight other item = Inr None)
   \<and> (\<exists>r. formatPercent other v = Inr r)
   \<and> \<not> num_lt (Math_abs x) (Fin 0)
   \<and> (\<bar>a\<bar> \<le> 1 \<longrightarrow>
        (\<exists>w. binary64 (\<bar>a\<bar> * 100) = Fin w
           \<and> formatPercent other (Val (Math_abs (Fin a))) = Inr (one_decimal w @ ''%'')
           \<and> CHR ''-'' \<notin> set (one_decimal w)))
   \<and> \<not> hasSynergy (item\<lparr>synergy_delta_wr := Val (binary64 (3 / 10000))\<rparr>)
   \<and> hasSynergy (item\<lparr>synergy_delta_wr := Val (binary64 (6 / 10000))\<rparr>)"
proof -
  have a: "hasSynergy item \<longleftrightarrow>
      (\<exists>x. synergy_delta_wr item = Val x \<and> num_lt (binary64 (5 / 10000)) (Math_abs x))"
    by (rule hasSynergy_iff)
  have b: "hasSynergy item \<and> synergy_delta_wr item = Val x
        \<and> formatPercent other (Val (Math_abs x)) = Inr p \<longrightarrow>
       renderHighlight other item =
         Inr (Some \<lparr>className = ''item-stat-block item-stat-block--highlight ''
                        @ (if num_le (Fin 0) x then ''item-stat-block--positive''
                           else ''item-stat-block--negative''),
                     label = ''Synergy'',
                     main_text = Some ((if num_le (Fin 0) x then ''+'' else minus_sign) @ p),
                     sub_text = ''vs global'', tooltip_title = ''Synergy''\<rparr>)"
    using render_synergy[of item x other p] by blast
  have c: "\<not> hasSynergy item \<and> transition_prob_from_prev item = Val y
        \<and> formatPercent other (Val y) = Inr q \<longrightarrow>
       renderHighlight other item =
         Inr (Some \<lparr>className = ''item-stat-block item-stat-block--highlight '',
                     label = ''Flow'', main_text = Some q,
                     sub_text = ''after previous'', tooltip_title = ''Build Flow''\<rparr>)"
    using render_flow[of item y other q] by blast
  have d: "\<not> hasSynergy item
        \<and> (transition_prob_from_prev item = Null \<or> transition_prob_from_prev item = Undefined)
       \<longrightarrow> renderHighlight other item = Inr None"
    using render_none[of item other] by blast
  have e: "\<exists>r. formatPercent other v = Inr r"
    using formatPercent_total[of other v] by blast
  have e1: "\<not> num_lt (Math_abs x) (Fin 0)"
    by (rule Math_abs_not_negative)
  have e2: "\<bar>a\<bar> \<le> 1 \<longrightarrow>
        (\<exists>w. binary64 (\<bar>a\<bar> * 100) = Fin w
           \<and> formatPercent other (Val (Math_abs (Fin a))) = Inr (one_decimal w @ ''%'')
           \<and> CHR ''-'' \<notin> set (one_decimal w))"
    using formatPercent_magnitude[of a other] by blast
  have f: "\<not> hasSynergy (item\<lparr>synergy_delta_wr := Val (binary64 (3 / 10000))\<rparr>)"
    by (simp add: hasSynergy_def lit_threshold lit_3e4 lit_6e4)
  have g: "hasSynergy (item\<lparr>synergy_delta_wr := Val (binary64 (6 / 10000))\<rparr>)"
    by (simp add: hasSynergy_def lit_threshold lit_3e4 lit_6e4)
  from a b c d e e1 e2 f g show ?thesis by (intro conjI)
qed

theorem synergy_flow_panel_witness:
  "hasSynergy (blank_item\<lparr>synergy_delta_wr := Val (binary64 (- 6 / 10000)),
                 transition_prob_from_prev := Val (Fin (1 / 4))\<rparr>)
   \<and> formatPercent (\<lambda>a. []) (Val (Math_abs (binary64 (- 6 / 10000)))) = Inr ''0.1%''
   \<and> renderHighlight (\<lambda>a. [])
        (blank_item\<lparr>synergy_delta_wr := Val (binary64 (- 6 / 10000)),
                 transition_prob_from_prev := Val (Fin (1 / 4))\<rparr>)
       = Inr (Some \<lparr>className =
                       ''item-stat-block item-stat-block--highlight item-stat-block--negative'',
                     label = ''Synergy'', main_text = Some (minus_sign @ ''0.1%''),
                     sub_text = ''vs global'', tooltip_title = ''Synergy''\<rparr>)
   \<and> \<not> hasSynergy (blank_item\<lparr>synergy_delta_wr := Val (binary64 (3 / 10000)),
                 transition_prob_from_prev := Val (Fin (1 / 4))\<rparr>)
   \<and> formatPercent (\<lambda>a. []) (Val (Fin (1 / 4))) = Inr ''25.0%''
   \<and> renderHighlight (\<lambda>a. [])
        (blank_item\<lparr>synergy_delta_wr := Val (binary64 (3 / 10000)),
                 transition_prob_from_prev := Val (Fin (1 / 4))\<rparr>)
       = Inr (Some \<lparr>className = ''item-stat-block item-stat-block--highlight '',
                     label = ''Flow'', main_text = Some ''25.0%'',
                     sub_text = ''after previous'', tooltip_title = ''Build Flow''\<rparr>)
   \<and> \<not> hasSynergy (blank_item\<lparr>transition_prob_from_prev := Null\<rparr>)
   \<and> renderHighlight (\<lambda>a. []) (blank_item\<lparr>transition_prob_from_prev := Null\<rparr>) = Inr None
   \<and> \<bar>- (5534023222112865 / 9223372036854775808) :: rat\<bar> \<le> 1
   \<and> binary64 (\<bar>- (5534023222112865 / 9223372036854775808)\<bar> * 100)
       = Fin (1080863910568919 / 18014398509481984)
   \<and> formatPercent (\<lambda>a. []) (Val (Math_abs (Fin (- (5534023222112865 / 9223372036854775808)))))
       = Inr ''0.1%''
   \<and> one_decimal (1080863910568919 / 18014398509481984) = ''0.1''
   \<and> CHR ''-'' \<notin> set (one_decimal (1080863910568919 / 18014398509481984))"
  using synergy_flow_panel[of
      "blank_item\<lparr>synergy_delta_wr := Val (binary64 (- 6 / 10000)),
                 transition_prob_from_prev := Val (Fin (1 / 4))\<rparr>"
      "binary64 (- 6 / 10000)" "\<lambda>a. []" "''0.1%''" "Fin (1 / 4)" "''25.0%''" Null
      "- (5534023222112865 / 9223372036854775808)"]
    synergy_flow_panel[of
      "blank_item\<lparr>synergy_delta_wr := Val (binary64 (3 / 10000)),
                 transition_prob_from_prev := Val (Fin (1 / 4))\<rparr>"
      "binary64 (3 / 10000)" "\<lambda>a. []" "''0.1%''" "Fin (1 / 4)" "''25.0%''" Null
      "- (5534023222112865 / 9223372036854775808)"]
    synergy_flow_panel[of "blank_item\<lparr>transition_prob_from_prev := Null\<rparr>"
      "binary64 (3 / 10000)" "\<lambda>a. []" "''0.1%''" "Fin (1 / 4)" "''25.0%''" Null
      "- (5534023222112865 / 9223372036854775808)"]
  by (simp add: hasSynergy_def blank_item_def lit_threshold lit_3e4 lit_6e4 lit_neg_6e4
        formatPercent_6e4 formatPercent_quarter scaled_6e4)

section \<open>Properties of the selection state machine\<close>

lemmas caps = MAX_TEAM_OTHERS_def MAX_LANE_ENEMIES_def MAX_ENEMY_OTHERS_def

lemmas sel_defs = selectHeroes_def run_events_def initial_state_def handleHeroClick_def
  handleStageClick_def resetAll_def usedHeroIds_def caps

subsection \<open>The click handler, stage by stage\<close>

lemma click_Hero:
  "stage s = Hero \<Longrightarrow> handleHeroClick s hid =
     (if heroId s = Some hid then s\<lparr>heroId := None\<rparr>
      else if hid \<in> usedHeroIds s then s
      else s\<lparr>heroId := Some hid, stage := LaneAlly\<rparr>)"
  by (simp add: handleHeroClick_def)

lemma click_LaneAlly:
  "stage s = LaneAlly \<Longrightarrow> handleHeroClick s hid =
     (if laneAllyId s = Some hid then s\<lparr>laneAllyId := None\<rparr>
      else if hid \<in> usedHeroIds s then s
      else s\<lparr>laneAllyId := Some hid, stage := TeamOthers\<rparr>)"
  by (simp add: handleHeroClick_def)

lemma click_TeamOthers:
  "stage s = TeamOthers \<Longrightarrow> handleHeroClick s hid =
     (if hid \<in> set (teamOtherIds s)
        then s\<lparr>teamOtherIds := filter (\<lambda>x. x \<noteq> hid) (teamOtherIds s)\<rparr>
      else if hid \<in> usedHeroIds s then s
      else if length (teamOtherIds s) \<ge> 4 then s
      else if length (teamOtherIds s) = 3
        then s\<lparr>teamOtherIds := teamOtherIds s @ [hid], stage := LaneEnemies\<rparr>
      else s\<lparr>teamOtherIds := teamOtherIds s @ [hid]\<rparr>)"
  by (simp add: handleHeroClick_def caps)

lemma click_LaneEnemies:
  "stage s = LaneEnemies \<Longrightarrow> handleHeroClick s hid =
     (if hid \<in> set (laneEnemyIds s)
        then s\<lparr>laneEnemyIds := filter (\<lambda>x. x \<noteq> hid) (laneEnemyIds s)\<rparr>
      else if hid \<in> usedHeroIds s then s
      else if length (laneEnemyIds s) \<ge> 2 then s
      else if length (laneEnemyIds s) = 1
        then s\<lparr>laneEnemyIds := laneEnemyIds s @ [hid], stage := EnemyOthers\<rparr>
      else s\<lparr>laneEnemyIds := laneEnemyIds s @ [hid]\<rparr>)"
  by (simp add: handleHeroClick_def caps)

lemma click_EnemyOthers:
  "stage s = EnemyOthers \<Longrightarrow> handleHeroClick s hid =
     (if hid \<in> set (enemyOtherIds s)
        then s\<lparr>enemyOtherIds := filter (\<lambda>x. x \<noteq> hid) (enemyOtherIds s)\<rparr>
      else if hid \<in> usedHeroIds s then s
      else if length (enemyOtherIds s) \<ge> 4 then s
      else s\<lparr>enemyOtherIds := enemyOtherIds s @ [hid]\<rparr>)"
  by (simp add: handleHeroClick_def caps)

lemmas click_stage = click_Hero click_LaneAlly click_TeamOthers click_LaneEnemies click_EnemyOthers

lemma unused_notin:
  assumes "hid \<notin> usedHeroIds s"
  shows "heroId s \<noteq> Some hid" "laneAllyId s \<noteq> Some hid" "hid \<notin> set (teamOtherIds s)"
    "hid \<notin> set (laneEnemyIds s)" "hid \<notin> set (enemyOtherIds s)"
  using assms by (auto simp: usedHeroIds_def)

lemma single_assign:
  assumes "hid \<notin> usedHeroIds s"
  shows "stage s = Hero \<Longrightarrow> handleHeroClick s hid = s\<lparr>heroId := Some hid, stage := LaneAlly\<rparr>"
    and "stage s = LaneAlly \<Longrightarrow>
           handleHeroClick s hid = s\<lparr>laneAllyId := Some hid, stage := TeamOthers\<rparr>"
  using unused_notin[OF assms] assms by (simp_all add: click_Hero click_LaneAlly)

lemma selectHeroes_12:
  "selectHeroes [1, 2, 3, 4, 5, 6, 7, 8, 9, 10, 11, 12] =
     \<lparr>stage = EnemyOthers, heroId = Some 1, laneAllyId = Some 2, teamOtherIds = [3, 4, 5, 6],
      laneEnemyIds = [7, 8], enemyOtherIds = [9, 10, 11, 12], isSubmitting = False,
      recommendation = None, submitError = None, showBuildView = False\<rparr>"
  by (simp add: sel_defs)

subsection \<open>Uniqueness\<close>

lemma set_role_ids: "set (role_ids s) = usedHeroIds s"
  by (auto simp: role_ids_def usedHeroIds_def split: option.splits)

lemma handleHeroClick_distinct:
  assumes "distinct (role_ids s)"
  shows "distinct (role_ids (handleHeroClick s hid))"
  using assms
  by (cases "stage s")
     (auto simp: click_stage role_ids_def usedHeroIds_def split: option.splits)

lemma handleStageClick_roles: "role_ids (handleStageClick s st) = role_ids s"
  by (simp add: handleStageClick_def role_ids_def)

lemma resetAll_roles: "role_ids (resetAll s) = []"
  by (simp add: resetAll_def role_ids_def)

lemma apply_event_distinct: "distinct (role_ids s) \<Longrightarrow> distinct (role_ids (apply_event s e))"
  by (cases e) (simp_all add: handleHeroClick_distinct handleStageClick_roles resetAll_roles)

lemma foldl_events_distinct:
  "distinct (role_ids s) \<Longrightarrow> distinct (role_ids (foldl apply_event s es))"
  by (induction es arbitrary: s) (simp_all add: apply_event_distinct)

lemma initial_roles: "role_ids initial_state = []"
  by (simp add: role_ids_def initial_state_def)

lemma foldl_clicks_events:
  "foldl handleHeroClick s ids = foldl apply_event s (map HeroClick ids)"
  by (induction ids arbitrary: s) simp_all

lemma selectHeroes_run_events: "selectHeroes ids = run_events (map HeroClick ids)"
  by (simp add: selectHeroes_def run_events_def foldl_clicks_events)

lemma used_elsewhere_noop:
  "hid \<in> usedHeroIds s \<Longrightarrow> \<not> isActiveRole s hid \<Longrightarrow> handleHeroClick s hid = s"
  by (cases "stage s") (simp_all add: click_stage isActiveRole_def)

text \<open>
  C1 (uniqueness). After any sequence of hero clicks from the empty selection, and more
  generally after any sequence of hero clicks, stage jumps and resets, the list of the
  ids in the five role slots has no repetition, so no id sits in two slots (or twice in
  one); the ids of that list are those of \<open>usedHeroIds\<close>. In any state, a click on an id
  that is in use, but not in the slot of the current stage, leaves the whole state as it
  is.
\<close>

theorem uniqueness_invariant:
  "distinct (role_ids (selectHeroes ids))
   \<and> distinct (role_ids (run_events es))
   \<and> set (role_ids s) = usedHeroIds s
   \<and> (hid \<in> usedHeroIds s \<and> \<not> isActiveRole s hid \<longrightarrow> handleHeroClick s hid = s)"
  by (simp add: selectHeroes_run_events run_events_def foldl_events_distinct initial_roles
        used_elsewhere_noop set_role_ids)

theorem uniqueness_invariant_witness:
  "distinct (role_ids (selectHeroes [1, 2, 3]))
   \<and> distinct (role_ids
        (run_events [HeroClick 1, HeroClick 2, StageClick Hero, HeroClick 2, HeroClick 3]))
   \<and> 1 \<in> usedHeroIds (selectHeroes [1, 2]) \<and> \<not> isActiveRole (selectHeroes [1, 2]) 1
   \<and> handleHeroClick (selectHeroes [1, 2]) 1 = selectHeroes [1, 2]"
  using uniqueness_invariant[of "[1, 2, 3]"
      "[HeroClick 1, HeroClick 2, StageClick Hero, HeroClick 2, HeroClick 3]"
      "selectHeroes [1, 2]" 1]
  by (simp add: sel_defs isActiveRole_def)

subsection \<open>Capacity\<close>

lemma length_filter_less_cap:
  "length xs \<le> n \<Longrightarrow> x \<in> set xs \<Longrightarrow> length (filter (\<lambda>y. y \<noteq> x) xs) < n"
  using length_filter_less[of x xs "\<lambda>y. y \<noteq> x"] by simp

lemma short_list_nil: "length xs < 2 \<Longrightarrow> length xs \<noteq> Suc 0 \<Longrightarrow> xs = []"
  by (cases xs) auto

lemma sel_inv_click: "sel_inv s \<Longrightarrow> sel_inv (handleHeroClick s hid)"
proof (cases "stage s")
  case Hero
  assume "sel_inv s"
  with Hero show ?thesis by (simp add: click_Hero) (simp add: sel_inv_def)
next
  case LaneAlly
  assume "sel_inv s"
  with LaneAlly show ?thesis by (simp add: click_LaneAlly) (simp add: sel_inv_def)
next
  case TeamOthers
  assume "sel_inv s"
  with TeamOthers show ?thesis
    by (simp add: click_TeamOthers) (auto simp: sel_inv_def length_filter_less_cap less_imp_le)
next
  case LaneEnemies
  assume "sel_inv s"
  with LaneEnemies show ?thesis
    by (simp add: click_LaneEnemies)
       (auto simp: sel_inv_def length_filter_less_cap less_imp_le intro: short_list_nil)
next
  case EnemyOthers
  assume "sel_inv s"
  with EnemyOthers show ?thesis
    by (simp add: click_EnemyOthers) (auto simp: sel_inv_def intro: le_trans[OF length_filter_le])
qed

lemma sel_inv_foldl: "sel_inv s \<Longrightarrow> sel_inv (foldl handleHeroClick s ids)"
  by (induction ids arbitrary: s) (simp_all add: sel_inv_click)

lemma sel_inv_init: "sel_inv initial_state"
  by (simp add: sel_inv_def initial_state_def)

lemma sel_inv_selectHeroes: "sel_inv (selectHeroes ids)"
  by (simp add: selectHeroes_def sel_inv_foldl sel_inv_init)

lemma full_noop:
  "sel_inv s \<Longrightarrow> slot_full s \<Longrightarrow> hid \<notin> usedHeroIds s \<Longrightarrow> handleHeroClick s hid = s"
  by (cases "stage s")
     (simp_all add: sel_inv_def slot_full_def handleHeroClick_def caps usedHeroIds_def)

lemma within_capacity_click:
  assumes "within_capacity s"
  shows "within_capacity (handleHeroClick s hid)"
proof (cases "stage s")
  case Hero
  with assms show ?thesis by (simp add: click_Hero) (simp add: within_capacity_def)
next
  case LaneAlly
  with assms show ?thesis by (simp add: click_LaneAlly) (simp add: within_capacity_def)
next
  case TeamOthers
  with assms show ?thesis
    by (simp add: click_TeamOthers)
       (auto simp: within_capacity_def caps intro: le_trans[OF length_filter_le])
next
  case LaneEnemies
  with assms show ?thesis
    by (simp add: click_LaneEnemies)
       (auto simp: within_capacity_def caps intro: le_trans[OF length_filter_le])
next
  case EnemyOthers
  with assms show ?thesis
    by (simp add: click_EnemyOthers)
       (auto simp: within_capacity_def caps intro: le_trans[OF length_filter_le])
qed

lemma within_capacity_event:
  "within_capacity s \<Longrightarrow> within_capacity (apply_event s e)"
  by (cases e)
     (simp_all add: within_capacity_click,
      simp_all add: within_capacity_def handleStageClick_def resetAll_def)

lemma within_capacity_foldl:
  "within_capacity s \<Longrightarrow> within_capacity (foldl apply_event s es)"
  by (induction es arbitrary: s) (simp_all add: within_capacity_event)

lemma within_capacity_run: "within_capacity (run_events es)"
  unfolding run_events_def
  by (rule within_capacity_foldl) (simp add: within_capacity_def initial_state_def)

lemma list_full_noop:
  assumes "hid \<notin> usedHeroIds s"
    and "stage s = TeamOthers \<and> 4 \<le> length (teamOtherIds s)
         \<or> stage s = LaneEnemies \<and> 2 \<le> length (laneEnemyIds s)
         \<or> stage s = EnemyOthers \<and> 4 \<le> length (enemyOtherIds s)"
  shows "handleHeroClick s hid = s"
  using assms(2) unused_notin[OF assms(1)] assms(1)
  by (auto simp: click_TeamOthers click_LaneEnemies click_EnemyOthers)

lemma click_only_full: "slot_full (selectHeroes ids) \<Longrightarrow> stage (selectHeroes ids) = EnemyOthers"
  using sel_inv_selectHeroes[of ids]
  by (cases "stage (selectHeroes ids)") (simp_all add: sel_inv_def slot_full_def caps)

lemma run_6_tab:
  "run_events [HeroClick 1, HeroClick 2, HeroClick 3, HeroClick 4, HeroClick 5, HeroClick 6,
               StageClick TeamOthers] =
     \<lparr>stage = TeamOthers, heroId = Some 1, laneAllyId = Some 2, teamOtherIds = [3, 4, 5, 6],
      laneEnemyIds = [], enemyOtherIds = [], isSubmitting = False,
      recommendation = None, submitError = None, showBuildView = False\<rparr>"
  by (simp add: sel_defs)

lemma run_8_tab:
  "run_events [HeroClick 1, HeroClick 2, HeroClick 3, HeroClick 4, HeroClick 5, HeroClick 6,
               HeroClick 7, HeroClick 8, StageClick LaneEnemies] =
     \<lparr>stage = LaneEnemies, heroId = Some 1, laneAllyId = Some 2, teamOtherIds = [3, 4, 5, 6],
      laneEnemyIds = [7, 8], enemyOtherIds = [], isSubmitting = False,
      recommendation = None, submitError = None, showBuildView = False\<rparr>"
  by (simp add: sel_defs)

lemma run_1_tab:
  "run_events [HeroClick 5, StageClick Hero] =
     \<lparr>stage = Hero, heroId = Some 5, laneAllyId = None, teamOtherIds = [],
      laneEnemyIds = [], enemyOtherIds = [], isSubmitting = False,
      recommendation = None, submitError = None, showBuildView = False\<rparr>"
  by (simp add: sel_defs)

lemma run_2_tab:
  "run_events [HeroClick 1, HeroClick 2, StageClick LaneAlly] =
     \<lparr>stage = LaneAlly, heroId = Some 1, laneAllyId = Some 2, teamOtherIds = [],
      laneEnemyIds = [], enemyOtherIds = [], isSubmitting = False,
      recommendation = None, submitError = None, showBuildView = False\<rparr>"
  by (simp add: sel_defs)

text \<open>
  C2 (capacity), as amended. In every state reached from the empty selection by hero
  clicks, stage clicks and resets, the three list slots hold at most 4, 2 and 4 ids. In
  every state, when the current stage governs a list slot that holds its capacity or
  more, a click on an unused id returns the state unchanged: no slot, no stage and no
  error field (\<open>submitError\<close>) is written. A single-valued slot has no capacity test: in
  stage \<open>hero\<close> or \<open>laneAlly\<close> a click on an unused id assigns the id, over an occupant
  if there is one, and advances the stage. In a state reached by hero clicks alone the
  slot of the current stage is full only in stage \<open>enemyOthers\<close>, and a click on an
  unused id at a full slot returns the state unchanged.
\<close>

theorem capacity_invariant:
  "length (teamOtherIds (run_events es)) \<le> 4
   \<and> length (laneEnemyIds (run_events es)) \<le> 2
   \<and> length (enemyOtherIds (run_events es)) \<le> 4
   \<and> (hid \<notin> usedHeroIds s
        \<and> (stage s = TeamOthers \<and> 4 \<le> length (teamOtherIds s)
            \<or> stage s = LaneEnemies \<and> 2 \<le> length (laneEnemyIds s)
            \<or> stage s = EnemyOthers \<and> 4 \<le> length (enemyOtherIds s))
        \<longrightarrow> handleHeroClick s hid = s)
   \<and> (hid \<notin> usedHeroIds s \<and> stage s = Hero
        \<longrightarrow> handleHeroClick s hid = s\<lparr>heroId := Some hid, stage := LaneAlly\<rparr>)
   \<and> (hid \<notin> usedHeroIds s \<and> stage s = LaneAlly
        \<longrightarrow> handleHeroClick s hid = s\<lparr>laneAllyId := Some hid, stage := TeamOthers\<rparr>)
   \<and> (slot_full (selectHeroes ids) \<longrightarrow> stage (selectHeroes ids) = EnemyOthers)
   \<and> (slot_full (selectHeroes ids) \<and> hid \<notin> usedHeroIds (selectHeroes ids)
        \<longrightarrow> handleHeroClick (selectHeroes ids) hid = selectHeroes ids)"
proof -
  have a: "length (teamOtherIds (run_events es)) \<le> 4"
    "length (laneEnemyIds (run_events es)) \<le> 2"
    "length (enemyOtherIds (run_events es)) \<le> 4"
    using within_capacity_run[of es] by (simp_all add: within_capacity_def caps)
  have b: "hid \<notin> usedHeroIds s
        \<and> (stage s = TeamOthers \<and> 4 \<le> length (teamOtherIds s)
            \<or> stage s = LaneEnemies \<and> 2 \<le> length (laneEnemyIds s)
            \<or> stage s = EnemyOthers \<and> 4 \<le> length (enemyOtherIds s))
        \<longrightarrow> handleHeroClick s hid = s"
    using list_full_noop[of hid s] by blast
  have c: "hid \<notin> usedHeroIds s \<and> stage s = Hero
        \<longrightarrow> handleHeroClick s hid = s\<lparr>heroId := Some hid, stage := LaneAlly\<rparr>"
    using single_assign(1)[of hid s] by blast
  have d: "hid \<notin> usedHeroIds s \<and> stage s = LaneAlly
        \<longrightarrow> handleHeroClick s hid = s\<lparr>laneAllyId := Some hid, stage := TeamOthers\<rparr>"
    using single_assign(2)[of hid s] by blast
  have e: "slot_full (selectHeroes ids) \<longrightarrow> stage (selectHeroes ids) = EnemyOthers"
    using click_only_full[of ids] by blast
  have f: "slot_full (selectHeroes ids) \<and> hid \<notin> usedHeroIds (selectHeroes ids)
        \<longrightarrow> handleHeroClick (selectHeroes ids) hid = selectHeroes ids"
    using sel_inv_selectHeroes[of ids] full_noop[of "selectHeroes ids" hid] by blast
  from a b c d e f show ?thesis by (intro conjI)
qed

theorem capacity_invariant_witness:
  "length (teamOtherIds (run_events [HeroClick 1, HeroClick 2, HeroClick 3, HeroClick 4,
       HeroClick 5, HeroClick 6, StageClick TeamOthers])) \<le> 4
   \<and> stage (run_events [HeroClick 1, HeroClick 2, HeroClick 3, HeroClick 4,
       HeroClick 5, HeroClick 6, StageClick TeamOthers]) = TeamOthers
   \<and> 4 \<le> length (teamOtherIds (run_events [HeroClick 1, HeroClick 2, HeroClick 3, HeroClick 4,
       HeroClick 5, HeroClick 6, StageClick TeamOthers]))
   \<and> 13 \<notin> usedHeroIds (run_events [HeroClick 1, HeroClick 2, HeroClick 3, HeroClick 4,
       HeroClick 5, HeroClick 6, StageClick TeamOthers])
   \<and> handleHeroClick (run_events [HeroClick 1, HeroClick 2, HeroClick 3, HeroClick 4,
       HeroClick 5, HeroClick 6, StageClick TeamOthers]) 13
       = run_events [HeroClick 1, HeroClick 2, HeroClick 3, HeroClick 4,
           HeroClick 5, HeroClick 6, StageClick TeamOthers]
   \<and> stage (run_events [HeroClick 1, HeroClick 2, HeroClick 3, HeroClick 4, HeroClick 5,
       HeroClick 6, HeroClick 7, HeroClick 8, StageClick LaneEnemies]) = LaneEnemies
   \<and> 2 \<le> length (laneEnemyIds (run_events [HeroClick 1, HeroClick 2, HeroClick 3, HeroClick 4,
       HeroClick 5, HeroClick 6, HeroClick 7, HeroClick 8, StageClick LaneEnemies]))
   \<and> 13 \<notin> usedHeroIds (run_events [HeroClick 1, HeroClick 2, HeroClick 3, HeroClick 4,
       HeroClick 5, HeroClick 6, HeroClick 7, HeroClick 8, StageClick LaneEnemies])
   \<and> handleHeroClick (run_events [HeroClick 1, HeroClick 2, HeroClick 3, HeroClick 4,
       HeroClick 5, HeroClick 6, HeroClick 7, HeroClick 8, StageClick LaneEnemies]) 13
       = run_events [HeroClick 1, HeroClick 2, HeroClick 3, HeroClick 4, HeroClick 5,
           HeroClick 6, HeroClick 7, HeroClick 8, StageClick LaneEnemies]
   \<and> stage (selectHeroes [1, 2, 3, 4, 5, 6, 7, 8, 9, 10, 11, 12]) = EnemyOthers
   \<and> 4 \<le> length (enemyOtherIds (selectHeroes [1, 2, 3, 4, 5, 6, 7, 8, 9, 10, 11, 12]))
   \<and> slot_full (selectHeroes [1, 2, 3, 4, 5, 6, 7, 8, 9, 10, 11, 12])
   \<and> 13 \<notin> usedHeroIds (selectHeroes [1, 2, 3, 4, 5, 6, 7, 8, 9, 10, 11, 12])
   \<and> handleHeroClick (selectHeroes [1, 2, 3, 4, 5, 6, 7, 8, 9, 10, 11, 12]) 13
       = selectHeroes [1, 2, 3, 4, 5, 6, 7, 8, 9, 10, 11, 12]
   \<and> stage (run_events [HeroClick 5, StageClick Hero]) = Hero
   \<and> 7 \<notin> usedHeroIds (run_events [HeroClick 5, StageClick Hero])
   \<and> handleHeroClick (run_events [HeroClick 5, StageClick Hero]) 7
       = (run_events [HeroClick 5, StageClick Hero])\<lparr>heroId := Some 7, stage := LaneAlly\<rparr>
   \<and> stage (run_events [HeroClick 1, HeroClick 2, StageClick LaneAlly]) = LaneAlly
   \<and> 3 \<notin> usedHeroIds (run_events [HeroClick 1, HeroClick 2, StageClick LaneAlly])
   \<and> handleHeroClick (run_events [HeroClick 1, HeroClick 2, StageClick LaneAlly]) 3
       = (run_events [HeroClick 1, HeroClick 2, StageClick LaneAlly])
           \<lparr>laneAllyId := Some 3, stage := TeamOthers\<rparr>"
  using capacity_invariant[of
      "[HeroClick 1, HeroClick 2, HeroClick 3, HeroClick 4, HeroClick 5, HeroClick 6,
        StageClick TeamOthers]" 13
      "run_events [HeroClick 1, HeroClick 2, HeroClick 3, HeroClick 4, HeroClick 5, HeroClick 6,
        StageClick TeamOthers]" "[1, 2, 3, 4, 5, 6, 7, 8, 9, 10, 11, 12]"]
    capacity_invariant[of "[]" 13
      "run_events [HeroClick 1, HeroClick 2, HeroClick 3, HeroClick 4, HeroClick 5, HeroClick 6,
        HeroClick 7, HeroClick 8, StageClick LaneEnemies]" "[]"]
    capacity_invariant[of "[]" 13 "selectHeroes [1, 2, 3, 4, 5, 6, 7, 8, 9, 10, 11, 12]" "[]"]
    capacity_invariant[of "[]" 7 "run_events [HeroClick 5, StageClick Hero]" "[]"]
    capacity_invariant[of "[]" 3 "run_events [HeroClick 1, HeroClick 2, StageClick LaneAlly]" "[]"]
  by (simp add: run_6_tab run_8_tab run_1_tab run_2_tab selectHeroes_12 slot_full_def
        usedHeroIds_def caps)

text \<open>
  The claim as stated fails for a single-valued slot: after a click on hero 5 and a
  click on the stage tab \<open>hero\<close> the slot of the current stage holds its one hero, hero
  7 is in no role, and a click on 7 puts 7 in the slot and moves the stage to
  \<open>laneAlly\<close>.
\<close>

theorem capacity_invariant_counterexample:
  "stage (run_events [HeroClick 5, StageClick Hero]) = Hero
   \<and> heroId (run_events [HeroClick 5, StageClick Hero]) = Some 5
   \<and> slot_full (run_events [HeroClick 5, StageClick Hero])
   \<and> 7 \<notin> usedHeroIds (run_events [HeroClick 5, StageClick Hero])
   \<and> handleHeroClick (run_events [HeroClick 5, StageClick Hero]) 7
       \<noteq> run_events [HeroClick 5, StageClick Hero]
   \<and> heroId (handleHeroClick (run_events [HeroClick 5, StageClick Hero]) 7) = Some 7
   \<and> stage (handleHeroClick (run_events [HeroClick 5, StageClick Hero]) 7) = LaneAlly"
  by (simp add: run_1_tab slot_full_def usedHeroIds_def handleHeroClick_def)


subsection \<open>The completeness gate\<close>

text \<open>
  C3 (completeness gate). \<open>canSubmit\<close> holds exactly when both single slots are set and
  the three list slots have lengths 4, 2 and 4; it is false as soon as one of the five
  conditions fails.
\<close>

theorem canSubmit_iff:
  "canSubmit s =
     (heroId s \<noteq> None \<and> laneAllyId s \<noteq> None \<and> length (teamOtherIds s) = 4
      \<and> length (laneEnemyIds s) = 2 \<and> length (enemyOtherIds s) = 4)"
  by (simp add: canSubmit_def caps)

subsection \<open>Auto-advance\<close>

text \<open>
  C4 (auto-advance). In any state, a click on an unused id in stage \<open>hero\<close> sets the hero
  and moves to \<open>laneAlly\<close>; in stage \<open>laneAlly\<close> it sets the lane ally and moves to
  \<open>teamOthers\<close>; in stage \<open>teamOthers\<close> it appends the id, and moves to \<open>laneEnemies\<close> when
  the id is the 4th and stays when it is the 1st, 2nd or 3rd; in stage \<open>laneEnemies\<close> it
  appends the id, and moves to \<open>enemyOthers\<close> when the id is the 2nd and stays when it is
  the 1st; in stage \<open>enemyOthers\<close> it appends the id up to the 4th and the stage stays
  \<open>enemyOthers\<close> in every case.
\<close>

theorem auto_advance:
  assumes "hid \<notin> usedHeroIds s"
  shows "(stage s = Hero \<longrightarrow>
            stage (handleHeroClick s hid) = LaneAlly \<and> heroId (handleHeroClick s hid) = Some hid)
       \<and> (stage s = LaneAlly \<longrightarrow>
            stage (handleHeroClick s hid) = TeamOthers
            \<and> laneAllyId (handleHeroClick s hid) = Some hid)
       \<and> (stage s = TeamOthers \<and> length (teamOtherIds s) = 3 \<longrightarrow>
            stage (handleHeroClick s hid) = LaneEnemies
            \<and> teamOtherIds (handleHeroClick s hid) = teamOtherIds s @ [hid])
       \<and> (stage s = TeamOthers \<and> length (teamOtherIds s) < 3 \<longrightarrow>
            stage (handleHeroClick s hid) = TeamOthers
            \<and> teamOtherIds (handleHeroClick s hid) = teamOtherIds s @ [hid])
       \<and> (stage s = LaneEnemies \<and> length (laneEnemyIds s) = 1 \<longrightarrow>
            stage (handleHeroClick s hid) = EnemyOthers
            \<and> laneEnemyIds (handleHeroClick s hid) = laneEnemyIds s @ [hid])
       \<and> (stage s = LaneEnemies \<and> length (laneEnemyIds s) = 0 \<longrightarrow>
            stage (handleHeroClick s hid) = LaneEnemies
            \<and> laneEnemyIds (handleHeroClick s hid) = laneEnemyIds s @ [hid])
       \<and> (stage s = EnemyOthers \<and> length (enemyOtherIds s) < 4 \<longrightarrow>
            stage (handleHeroClick s hid) = EnemyOthers
            \<and> enemyOtherIds (handleHeroClick s hid) = enemyOtherIds s @ [hid])
       \<and> (stage s = EnemyOthers \<longrightarrow> stage (handleHeroClick s hid) = EnemyOthers)"
  using assms unused_notin[OF assms] by (cases "stage s") (simp_all add: click_stage)

theorem auto_advance_witness:
  "1 \<notin> usedHeroIds initial_state \<and> stage initial_state = Hero
   \<and> stage (handleHeroClick initial_state 1) = LaneAlly
   \<and> heroId (handleHeroClick initial_state 1) = Some 1
   \<and> 2 \<notin> usedHeroIds (selectHeroes [1]) \<and> stage (selectHeroes [1]) = LaneAlly
   \<and> stage (handleHeroClick (selectHeroes [1]) 2) = TeamOthers
   \<and> laneAllyId (handleHeroClick (selectHeroes [1]) 2) = Some 2
   \<and> 6 \<notin> usedHeroIds (selectHeroes [1, 2, 3, 4, 5])
   \<and> stage (selectHeroes [1, 2, 3, 4, 5]) = TeamOthers
   \<and> length (teamOtherIds (selectHeroes [1, 2, 3, 4, 5])) = 3
   \<and> stage (handleHeroClick (selectHeroes [1, 2, 3, 4, 5]) 6) = LaneEnemies
   \<and> teamOtherIds (handleHeroClick (selectHeroes [1, 2, 3, 4, 5]) 6) = [3, 4, 5, 6]
   \<and> 5 \<notin> usedHeroIds (selectHeroes [1, 2, 3, 4])
   \<and> stage (selectHeroes [1, 2, 3, 4]) = TeamOthers
   \<and> length (teamOtherIds (selectHeroes [1, 2, 3, 4])) < 3
   \<and> stage (handleHeroClick (selectHeroes [1, 2, 3, 4]) 5) = TeamOthers
   \<and> teamOtherIds (handleHeroClick (selectHeroes [1, 2, 3, 4]) 5) = [3, 4, 5]
   \<and> 8 \<notin> usedHeroIds (selectHeroes [1, 2, 3, 4, 5, 6, 7])
   \<and> stage (selectHeroes [1, 2, 3, 4, 5, 6, 7]) = LaneEnemies
   \<and> length (laneEnemyIds (selectHeroes [1, 2, 3, 4, 5, 6, 7])) = 1
   \<and> stage (handleHeroClick (selectHeroes [1, 2, 3, 4, 5, 6, 7]) 8) = EnemyOthers
   \<and> laneEnemyIds (handleHeroClick (selectHeroes [1, 2, 3, 4, 5, 6, 7]) 8) = [7, 8]
   \<and> 7 \<notin> usedHeroIds (selectHeroes [1, 2, 3, 4, 5, 6])
   \<and> stage (selectHeroes [1, 2, 3, 4, 5, 6]) = LaneEnemies
   \<and> length (laneEnemyIds (selectHeroes [1, 2, 3, 4, 5, 6])) = 0
   \<and> stage (handleHeroClick (selectHeroes [1, 2, 3, 4, 5, 6]) 7) = LaneEnemies
   \<and> laneEnemyIds (handleHeroClick (selectHeroes [1, 2, 3, 4, 5, 6]) 7) = [7]
   \<and> 12 \<notin> usedHeroIds (selectHeroes [1, 2, 3, 4, 5, 6, 7, 8, 9, 10, 11])
   \<and> stage (selectHeroes [1, 2, 3, 4, 5, 6, 7, 8, 9, 10, 11]) = EnemyOthers
   \<and> length (enemyOtherIds (selectHeroes [1, 2, 3, 4, 5, 6, 7, 8, 9, 10, 11])) < 4
   \<and> stage (handleHeroClick (selectHeroes [1, 2, 3, 4, 5, 6, 7, 8, 9, 10, 11]) 12) = EnemyOthers
   \<and> enemyOtherIds (handleHeroClick (selectHeroes [1, 2, 3, 4, 5, 6, 7, 8, 9, 10, 11]) 12)
       = [9, 10, 11, 12]"
  using auto_advance[of 1 initial_state] auto_advance[of 2 "selectHeroes [1]"]
    auto_advance[of 6 "selectHeroes [1, 2, 3, 4, 5]"]
    auto_advance[of 5 "selectHeroes [1, 2, 3, 4]"]
    auto_advance[of 8 "selectHeroes [1, 2, 3, 4, 5, 6, 7]"]
    auto_advance[of 7 "selectHeroes [1, 2, 3, 4, 5, 6]"]
    auto_advance[of 12 "selectHeroes [1, 2, 3, 4, 5, 6, 7, 8, 9, 10, 11]"]
  by (simp add: sel_defs)

subsection \<open>Toggling an id off\<close>

lemma filter_neq_notin: "hid \<notin> set xs \<Longrightarrow> filter (\<lambda>x. x \<noteq> hid) xs = xs"
  by (induction xs) auto

lemma select_twice_restores:
  assumes "hid \<notin> usedHeroIds s"
    and "stage s = Hero \<longrightarrow> heroId s = None"
    and "stage s = LaneAlly \<longrightarrow> laneAllyId s = None"
  shows "select_twice s hid = handleStageClick s (stage s)"
proof (cases "stage s")
  case Hero
  with assms unused_notin[OF assms(1)] show ?thesis
    by (simp add: select_twice_def click_Hero handleStageClick_def)
next
  case LaneAlly
  with assms unused_notin[OF assms(1)] show ?thesis
    by (simp add: select_twice_def click_LaneAlly handleStageClick_def)
next
  case TeamOthers
  with assms unused_notin[OF assms(1)] show ?thesis
    by (simp add: select_twice_def click_TeamOthers handleStageClick_def filter_neq_notin)
next
  case LaneEnemies
  with assms unused_notin[OF assms(1)] show ?thesis
    by (simp add: select_twice_def click_LaneEnemies handleStageClick_def filter_neq_notin)
next
  case EnemyOthers
  with assms unused_notin[OF assms(1)] show ?thesis
    by (simp add: select_twice_def click_EnemyOthers handleStageClick_def filter_neq_notin)
qed

lemma toggle_off_effect:
  assumes "isActiveRole s hid"
  shows "stage (handleHeroClick s hid) = stage s
       \<and> slot_ids (stage s) (handleHeroClick s hid)
           = filter (\<lambda>x. x \<noteq> hid) (slot_ids (stage s) s)"
  using assms by (cases "stage s") (auto simp: isActiveRole_def click_stage slot_ids_def)

lemma select_twice_occupied:
  assumes "hid \<notin> usedHeroIds s"
  shows "(stage s = Hero \<longrightarrow> heroId (select_twice s hid) = None)
       \<and> (stage s = LaneAlly \<longrightarrow> laneAllyId (select_twice s hid) = None)"
  using assms unused_notin(1,2)[OF assms]
  by (cases "stage s") (simp_all add: select_twice_def click_stage handleStageClick_def)

lemma slot_ids_handleStageClick: "slot_ids st (handleStageClick s st') = slot_ids st s"
  by (simp add: slot_ids_def handleStageClick_def split: SelectionStage.splits)

lemma handleHeroClick_view: "showBuildView (handleHeroClick s hid) = showBuildView s"
  by (cases "stage s") (simp_all add: click_stage)

lemma foldl_clicks_view: "showBuildView (foldl handleHeroClick s ids) = showBuildView s"
  by (induction ids arbitrary: s) (simp_all add: handleHeroClick_view)

lemma selectHeroes_selection_view:
  "handleStageClick (selectHeroes ids) (stage (selectHeroes ids)) = selectHeroes ids"
proof -
  have "showBuildView (selectHeroes ids) = False"
    by (simp add: selectHeroes_def foldl_clicks_view initial_state_def)
  then show ?thesis by (simp add: handleStageClick_def)
qed

lemma select_twice_selectHeroes:
  assumes "hid \<notin> usedHeroIds (selectHeroes ids)"
  shows "select_twice (selectHeroes ids) hid
           = handleStageClick (selectHeroes ids) (stage (selectHeroes ids))"
  using sel_inv_selectHeroes[of ids] assms
  by (intro select_twice_restores) (simp_all add: sel_inv_def)

text \<open>
  C5 (toggle round trip), as amended. Let an id be in no role. When the current stage
  governs a list slot, or a single-valued slot that is empty, selecting the id and
  selecting it again in the same stage (the stage tab is clicked in between, since the
  first click may advance the stage) gives back the slot, and indeed the whole selection
  and stage. When the stage governs a single-valued slot, the first click puts the id in
  the slot, replacing an occupant, and the two clicks leave that slot empty, whatever it
  held before. A toggle-off
  (a click on an id that sits in the slot of the current stage) removes the id from the
  slot and does not change the stage. In a state reached by hero clicks alone the slot
  of the current stage is never an occupied single-valued slot, and the two clicks give
  back the state.
\<close>

theorem toggle_roundtrip:
  "(hid \<notin> usedHeroIds s \<and> (stage s = Hero \<longrightarrow> heroId s = None)
      \<and> (stage s = LaneAlly \<longrightarrow> laneAllyId s = None)
     \<longrightarrow> slot_ids (stage s) (select_twice s hid) = slot_ids (stage s) s
         \<and> select_twice s hid = handleStageClick s (stage s))
   \<and> (hid \<notin> usedHeroIds s \<and> stage s = Hero \<longrightarrow>
        heroId (handleHeroClick s hid) = Some hid \<and> heroId (select_twice s hid) = None)
   \<and> (hid \<notin> usedHeroIds s \<and> stage s = LaneAlly \<longrightarrow>
        laneAllyId (handleHeroClick s hid) = Some hid \<and> laneAllyId (select_twice s hid) = None)
   \<and> (isActiveRole t hid \<longrightarrow>
        stage (handleHeroClick t hid) = stage t
        \<and> slot_ids (stage t) (handleHeroClick t hid)
            = filter (\<lambda>x. x \<noteq> hid) (slot_ids (stage t) t))
   \<and> (hid \<notin> usedHeroIds (selectHeroes ids) \<longrightarrow>
        slot_ids (stage (selectHeroes ids)) (select_twice (selectHeroes ids) hid)
          = slot_ids (stage (selectHeroes ids)) (selectHeroes ids)
        \<and> select_twice (selectHeroes ids) hid = selectHeroes ids)"
  using select_twice_restores[of hid s] toggle_off_effect[of t hid] select_twice_occupied[of hid s]
    select_twice_selectHeroes[of hid ids] selectHeroes_selection_view[of ids]
    single_assign[of hid s]
  by (simp add: slot_ids_handleStageClick)

theorem toggle_roundtrip_witness:
  "4 \<notin> usedHeroIds (selectHeroes [1, 2, 3]) \<and> stage (selectHeroes [1, 2, 3]) = TeamOthers
   \<and> slot_ids TeamOthers (selectHeroes [1, 2, 3]) = [3]
   \<and> slot_ids TeamOthers (select_twice (selectHeroes [1, 2, 3]) 4) = [3]
   \<and> select_twice (selectHeroes [1, 2, 3]) 4 = selectHeroes [1, 2, 3]
   \<and> 1 \<notin> usedHeroIds initial_state \<and> stage initial_state = Hero
   \<and> heroId (handleHeroClick initial_state 1) = Some 1
   \<and> heroId (select_twice initial_state 1) = None
   \<and> 2 \<notin> usedHeroIds (selectHeroes [1]) \<and> stage (selectHeroes [1]) = LaneAlly
   \<and> laneAllyId (handleHeroClick (selectHeroes [1]) 2) = Some 2
   \<and> laneAllyId (select_twice (selectHeroes [1]) 2) = None
   \<and> isActiveRole (selectHeroes [1, 2, 3]) 3
   \<and> stage (handleHeroClick (selectHeroes [1, 2, 3]) 3) = TeamOthers
   \<and> slot_ids TeamOthers (handleHeroClick (selectHeroes [1, 2, 3]) 3) = []"
  using toggle_roundtrip[of 4 "selectHeroes [1, 2, 3]" "selectHeroes [1, 2, 3]" "[1, 2, 3]"]
    toggle_roundtrip[of 1 initial_state initial_state "[]"]
    toggle_roundtrip[of 2 "selectHeroes [1]" "selectHeroes [1]" "[1]"]
    toggle_roundtrip[of 3 "selectHeroes [1, 2, 3]" "selectHeroes [1, 2, 3]" "[1, 2]"]
  by (simp add: sel_defs isActiveRole_def slot_ids_def)

text \<open>
  The claim as stated fails where a single-valued slot is occupied: after a click on
  hero 5 and a jump back to stage \<open>hero\<close>, hero 7 is in no role and the hero slot holds
  5; selecting 7 and selecting it again in stage \<open>hero\<close> leaves the hero slot empty.
\<close>

theorem toggle_roundtrip_counterexample:
  "7 \<notin> usedHeroIds (run_events [HeroClick 5, StageClick Hero])
   \<and> stage (run_events [HeroClick 5, StageClick Hero]) = Hero
   \<and> slot_ids Hero (run_events [HeroClick 5, StageClick Hero]) = [5]
   \<and> slot_ids Hero (select_twice (run_events [HeroClick 5, StageClick Hero]) 7) = []"
  by (simp add: sel_defs select_twice_def slot_ids_def)

subsection \<open>The end-to-end scenario\<close>

text \<open>
  C8 (end-to-end scenario). Clicking heroes 1 to 12 in this order from the empty
  selection, with no stage jump, makes \<open>canSubmit\<close> true, and the payload that
  \<open>handleRecommendClick\<close> sends is hero 1, lane ally 2, allies 3, 4, 5, 6, lane enemies
  7, 8, enemies 9, 10, 11, 12, each list in click order, with \<open>top_k_per_phase\<close> 8.
\<close>

theorem end_to_end:
  "canSubmit (selectHeroes [1, 2, 3, 4, 5, 6, 7, 8, 9, 10, 11, 12])
   \<and> map_option snd
        (handleRecommendClick_start (selectHeroes [1, 2, 3, 4, 5, 6, 7, 8, 9, 10, 11, 12]))
       = Some \<lparr>hero_id = 1, lane_ally_id = 2, team_other_ids = [3, 4, 5, 6],
               lane_enemy_ids = [7, 8], enemy_other_ids = [9, 10, 11, 12],
               top_k_per_phase = Some 8\<rparr>"
  by (simp add: selectHeroes_12 handleRecommendClick_start_def canSubmit_def caps)

section \<open>Properties of the submission\<close>

lemma handleHeroClick_keeps:
  "isSubmitting (handleHeroClick s hid) = isSubmitting s
   \<and> recommendation (handleHeroClick s hid) = recommendation s
   \<and> submitError (handleHeroClick s hid) = submitError s"
  by (cases "stage s") (simp_all add: click_stage)

lemma settle_failure:
  "failure_message r \<noteq> None \<Longrightarrow>
     handleRecommendClick_settle s r = s\<lparr>submitError := failure_message r, isSubmitting := False\<rparr>"
  by (cases r) (simp_all add: handleRecommendClick_settle_def)

lemma ui_inv_step: "ui_inv c \<Longrightarrow> ui_inv (ui_step c e)"
proof (cases c)
  case (Pair s n)
  assume inv: "ui_inv c"
  show ?thesis
  proof (cases e)
    case (CardClick hid)
    with Pair inv show ?thesis by (simp add: ui_inv_def handleHeroClick_keeps)
  next
    case (TabClick st)
    with Pair inv show ?thesis by (simp add: ui_inv_def handleStageClick_def)
  next
    case ResetButton
    with Pair inv show ?thesis by (simp add: ui_inv_def resetAll_def)
  next
    case RecommendButton
    with Pair inv show ?thesis by (simp add: ui_inv_def handleRecommendClick_start_def)
  next
    case BackButton
    with Pair inv show ?thesis by (simp add: ui_inv_def handleBackFromBuild_def)
  next
    case (Settled r)
    with Pair inv show ?thesis
      by (cases r; cases n)
         (auto simp: ui_inv_def handleRecommendClick_settle_def split: if_splits)
  qed
qed

lemma ui_inv_foldl: "ui_inv c \<Longrightarrow> ui_inv (foldl ui_step c es)"
  by (induction es arbitrary: c) (simp_all add: ui_inv_step)

lemma ui_inv_run: "ui_inv (ui_run es)"
  unfolding ui_run_def by (rule ui_inv_foldl) (simp add: ui_inv_def initial_state_def)

lemma shown_result_settled:
  assumes "ui_run es = (u, n)" and "render_page u = RecommendationView d"
  shows "recommendation u = Some d \<and> \<not> isSubmitting u \<and> submitError u = None \<and> n = 0"
proof -
  from assms(2) have r: "recommendation u = Some d"
    by (auto simp: render_page_def renderRecommendations_def split: if_splits option.splits)
  from ui_inv_run[of es] assms(1) r show ?thesis by (auto simp: ui_inv_def)
qed

text \<open>
  C9 (stale-result clearing). A submission that passes \<open>canSubmit\<close> sends its request
  from a state in which the stored result and the stored error are both \<open>null\<close> and
  \<open>isSubmitting\<close> is set; if the request then fails, the stored result is still \<open>null\<close>
  and the stored error is the message of the failure. In every state that the page
  reaches through its controls and the settling of its requests, a pending request or a
  stored error excludes a stored result, and at most one request is pending; whenever
  the page shows the phases of a result, that result is the stored one, no request is
  pending and no error is stored.
\<close>

theorem stale_result_cleared:
  "(canSubmit s \<longrightarrow> handleRecommendClick_start s \<noteq> None)
   \<and> (handleRecommendClick_start s = Some (s', p) \<longrightarrow>
        recommendation s' = None \<and> submitError s' = None \<and> isSubmitting s'
        \<and> (failure_message r \<noteq> None \<longrightarrow>
             recommendation (handleRecommendClick_settle s' r) = None
             \<and> submitError (handleRecommendClick_settle s' r) = failure_message r))
   \<and> (ui_run es = (u, n) \<longrightarrow>
        (isSubmitting u \<or> submitError u \<noteq> None \<longrightarrow> recommendation u = None)
        \<and> n = (if isSubmitting u then 1 else 0))
   \<and> (ui_run es = (u, n) \<and> render_page u = RecommendationView d \<longrightarrow>
        recommendation u = Some d \<and> \<not> isSubmitting u \<and> submitError u = None \<and> n = 0)"
proof -
  have a: "canSubmit s \<longrightarrow> handleRecommendClick_start s \<noteq> None"
    by (simp add: handleRecommendClick_start_def)
  have b: "handleRecommendClick_start s = Some (s', p) \<longrightarrow>
        recommendation s' = None \<and> submitError s' = None \<and> isSubmitting s'
        \<and> (failure_message r \<noteq> None \<longrightarrow>
             recommendation (handleRecommendClick_settle s' r) = None
             \<and> submitError (handleRecommendClick_settle s' r) = failure_message r)"
    by (auto simp: handleRecommendClick_start_def settle_failure split: if_splits)
  have c: "ui_run es = (u, n) \<longrightarrow>
        (isSubmitting u \<or> submitError u \<noteq> None \<longrightarrow> recommendation u = None)
        \<and> n = (if isSubmitting u then 1 else 0)"
    using ui_inv_run[of es] by (auto simp: ui_inv_def)
  have d: "ui_run es = (u, n) \<and> render_page u = RecommendationView d \<longrightarrow>
        recommendation u = Some d \<and> \<not> isSubmitting u \<and> submitError u = None \<and> n = 0"
    using shown_result_settled[of es u n d] by blast
  from a b c d show ?thesis by (intro conjI)
qed

lemmas ui_defs = ui_run_def initial_state_def handleHeroClick_def usedHeroIds_def caps
  canSubmit_def handleRecommendClick_start_def handleRecommendClick_settle_def
  handleBackFromBuild_def

lemma ui_run_success:
  "ui_run [CardClick 1, CardClick 2, CardClick 3, CardClick 4, CardClick 5, CardClick 6,
           CardClick 7, CardClick 8, CardClick 9, CardClick 10, CardClick 11, CardClick 12,
           RecommendButton, Settled (Decoded empty_response), BackButton]
   = (\<lparr>stage = EnemyOthers, heroId = Some 1, laneAllyId = Some 2, teamOtherIds = [3, 4, 5, 6],
       laneEnemyIds = [7, 8], enemyOtherIds = [9, 10, 11, 12], isSubmitting = False,
       recommendation = Some empty_response, submitError = None, showBuildView = False\<rparr>, 0)"
  by (simp add: ui_defs)

lemma ui_run_failure:
  "ui_run [CardClick 1, CardClick 2, CardClick 3, CardClick 4, CardClick 5, CardClick 6,
           CardClick 7, CardClick 8, CardClick 9, CardClick 10, CardClick 11, CardClick 12,
           RecommendButton, Settled (Decoded empty_response), BackButton,
           RecommendButton, Settled (NotOk 503 None)]
   = (\<lparr>stage = EnemyOthers, heroId = Some 1, laneAllyId = Some 2, teamOtherIds = [3, 4, 5, 6],
       laneEnemyIds = [7, 8], enemyOtherIds = [9, 10, 11, 12], isSubmitting = False,
       recommendation = None,
       submitError = Some ''Recommendation failed with status 503'',
       showBuildView = False\<rparr>, 0)"
  by (simp add: ui_defs show_nat.simps digit_char_def)

lemma ui_run_shown:
  "ui_run [CardClick 1, CardClick 2, CardClick 3, CardClick 4, CardClick 5, CardClick 6,
           CardClick 7, CardClick 8, CardClick 9, CardClick 10, CardClick 11, CardClick 12,
           RecommendButton, Settled (Decoded empty_response)]
   = (\<lparr>stage = EnemyOthers, heroId = Some 1, laneAllyId = Some 2, teamOtherIds = [3, 4, 5, 6],
       laneEnemyIds = [7, 8], enemyOtherIds = [9, 10, 11, 12], isSubmitting = False,
       recommendation = Some empty_response, submitError = None, showBuildView = True\<rparr>, 0)"
  by (simp add: ui_defs)

theorem stale_result_cleared_witness:
  "canSubmit (selectHeroes [1, 2, 3, 4, 5, 6, 7, 8, 9, 10, 11, 12])
   \<and> handleRecommendClick_start (selectHeroes [1, 2, 3, 4, 5, 6, 7, 8, 9, 10, 11, 12])
       = Some (\<lparr>stage = EnemyOthers, heroId = Some 1, laneAllyId = Some 2,
                teamOtherIds = [3, 4, 5, 6], laneEnemyIds = [7, 8],
                enemyOtherIds = [9, 10, 11, 12], isSubmitting = True,
                recommendation = None, submitError = None, showBuildView = False\<rparr>,
               \<lparr>hero_id = 1, lane_ally_id = 2, team_other_ids = [3, 4, 5, 6],
                lane_enemy_ids = [7, 8], enemy_other_ids = [9, 10, 11, 12],
                top_k_per_phase = Some 8\<rparr>)
   \<and> failure_message (Rejected None) = Some ''Failed to get recommendation.''
   \<and> recommendation (handleRecommendClick_settle
        \<lparr>stage = EnemyOthers, heroId = Some 1, laneAllyId = Some 2,
         teamOtherIds = [3, 4, 5, 6], laneEnemyIds = [7, 8],
         enemyOtherIds = [9, 10, 11, 12], isSubmitting = True,
         recommendation = None, submitError = None, showBuildView = False\<rparr>
        (Rejected None)) = None
   \<and> submitError (handleRecommendClick_settle
        \<lparr>stage = EnemyOthers, heroId = Some 1, laneAllyId = Some 2,
         teamOtherIds = [3, 4, 5, 6], laneEnemyIds = [7, 8],
         enemyOtherIds = [9, 10, 11, 12], isSubmitting = True,
         recommendation = None, submitError = None, showBuildView = False\<rparr>
        (Rejected None)) = Some ''Failed to get recommendation.''
   \<and> recommendation (fst (ui_run
        [CardClick 1, CardClick 2, CardClick 3, CardClick 4, CardClick 5, CardClick 6,
         CardClick 7, CardClick 8, CardClick 9, CardClick 10, CardClick 11, CardClick 12,
         RecommendButton, Settled (Decoded empty_response), BackButton]))
       = Some empty_response
   \<and> submitError (fst (ui_run
        [CardClick 1, CardClick 2, CardClick 3, CardClick 4, CardClick 5, CardClick 6,
         CardClick 7, CardClick 8, CardClick 9, CardClick 10, CardClick 11, CardClick 12,
         RecommendButton, Settled (Decoded empty_response), BackButton,
         RecommendButton, Settled (NotOk 503 None)]))
       = Some ''Recommendation failed with status 503''
   \<and> recommendation (fst (ui_run
        [CardClick 1, CardClick 2, CardClick 3, CardClick 4, CardClick 5, CardClick 6,
         CardClick 7, CardClick 8, CardClick 9, CardClick 10, CardClick 11, CardClick 12,
         RecommendButton, Settled (Decoded empty_response), BackButton,
         RecommendButton, Settled (NotOk 503 None)]))
       = None
   \<and> render_page (fst (ui_run
        [CardClick 1, CardClick 2, CardClick 3, CardClick 4, CardClick 5, CardClick 6,
         CardClick 7, CardClick 8, CardClick 9, CardClick 10, CardClick 11, CardClick 12,
         RecommendButton, Settled (Decoded empty_response)]))
       = RecommendationView empty_response
   \<and> snd (ui_run
        [CardClick 1, CardClick 2, CardClick 3, CardClick 4, CardClick 5, CardClick 6,
         CardClick 7, CardClick 8, CardClick 9, CardClick 10, CardClick 11, CardClick 12,
         RecommendButton, Settled (Decoded empty_response)])
       = 0"
  using stale_result_cleared[of "selectHeroes [1, 2, 3, 4, 5, 6, 7, 8, 9, 10, 11, 12]"
      "\<lparr>stage = EnemyOthers, heroId = Some 1, laneAllyId = Some 2,
                teamOtherIds = [3, 4, 5, 6], laneEnemyIds = [7, 8],
                enemyOtherIds = [9, 10, 11, 12], isSubmitting = True,
                recommendation = None, submitError = None, showBuildView = False\<rparr>"
      "\<lparr>hero_id = 1, lane_ally_id = 2, team_other_ids = [3, 4, 5, 6],
                lane_enemy_ids = [7, 8], enemy_other_ids = [9, 10, 11, 12],
                top_k_per_phase = Some 8\<rparr>"
      "Rejected None"
      "[CardClick 1, CardClick 2, CardClick 3, CardClick 4, CardClick 5, CardClick 6,
         CardClick 7, CardClick 8, CardClick 9, CardClick 10, CardClick 11, CardClick 12,
         RecommendButton, Settled (Decoded empty_response), BackButton,
         RecommendButton, Settled (NotOk 503 None)]"
      "fst (ui_run
        [CardClick 1, CardClick 2, CardClick 3, CardClick 4, CardClick 5, CardClick 6,
         CardClick 7, CardClick 8, CardClick 9, CardClick 10, CardClick 11, CardClick 12,
         RecommendButton, Settled (Decoded empty_response), BackButton,
         RecommendButton, Settled (NotOk 503 None)])" 0 empty_response]
    stale_result_cleared[of "selectHeroes [1, 2, 3, 4, 5, 6, 7, 8, 9, 10, 11, 12]"
      initial_state "\<lparr>hero_id = 1, lane_ally_id = 2, team_other_ids = [3, 4, 5, 6],
                lane_enemy_ids = [7, 8], enemy_other_ids = [9, 10, 11, 12],
                top_k_per_phase = Some 8\<rparr>"
      "Rejected None"
      "[CardClick 1, CardClick 2, CardClick 3, CardClick 4, CardClick 5, CardClick 6,
         CardClick 7, CardClick 8, CardClick 9, CardClick 10, CardClick 11, CardClick 12,
         RecommendButton, Settled (Decoded empty_response)]"
      "fst (ui_run
        [CardClick 1, CardClick 2, CardClick 3, CardClick 4, CardClick 5, CardClick 6,
         CardClick 7, CardClick 8, CardClick 9, CardClick 10, CardClick 11, CardClick 12,
         RecommendButton, Settled (Decoded empty_response)])" 0 empty_response]
  by (simp add: selectHeroes_12 ui_run_success ui_run_failure ui_run_shown canSubmit_def caps
        handleRecommendClick_start_def handleRecommendClick_settle_def render_page_def
        renderRecommendations_def)

end
